theory Spec2Isabelle
  imports Main "HOL-Library.Multiset" "HOL-Library.Char_ord" "HOL-Library.List_Lexorder"
begin

section \<open>Data model\<close>

text \<open>
  The controllers of the library catalogue (\<^verbatim>\<open>authorController.js\<close> and the Genre
  controller) work on three collections of a document store. A document identifier is
  the text of its ObjectId. The store keeps each collection as a list, in the
  collection's natural order.
\<close>

type_synonym ident = string

text \<open>
  A date field of a request body, after the validation chain has run: either the chain
  was skipped and the submitted text is still there (\<open>Raw\<close>), or the \<^verbatim>\<open>toDate\<close>
  sanitizer replaced it by a Date (its time value in milliseconds) or by null
  (\<open>Parsed\<close>).
\<close>

datatype date_value = Raw string | Parsed "int option"

record author =
  author_id :: ident
  first_name :: string
  family_name :: string
  date_of_birth :: date_value
  date_of_death :: date_value

record genre =
  genre_id :: ident
  genre_name :: string

record book =
  book_id :: ident
  book_title :: string
  book_summary :: string
  book_author :: ident
  book_genre :: ident

text \<open>A Book as a query returns it under a projection: a field that was not selected is absent.\<close>

record book_proj =
  bp_id :: ident
  bp_title :: "string option"
  bp_summary :: "string option"

record store =
  authors :: "author list"
  genres :: "genre list"
  books :: "book list"

text \<open>
  Modelled from the spec: the \<^verbatim>\<open>url\<close> virtual of \<^verbatim>\<open>models/author\<close> and
  \<^verbatim>\<open>models/genre\<close>, which are not among the sources. The spec says that the url
  is derived deterministically from the identifier and gives \<^verbatim>\<open>/genre/<newId>\<close> as
  its shape.
\<close>

definition author_url :: "ident \<Rightarrow> string" where
  "author_url i = ''/author/'' @ i"

definition genre_url :: "ident \<Rightarrow> string" where
  "genre_url i = ''/genre/'' @ i"

section \<open>Requests and responses\<close>

record author_req =
  aparams_id :: ident
  body_first_name :: string
  body_family_name :: string
  body_date_of_birth :: string
  body_date_of_death :: string
  body_authorid :: ident

record genre_req =
  gparams_id :: ident
  body_name :: string
  body_genreid :: ident

text \<open>One entry of \<^verbatim>\<open>validationResult(req).array()\<close>: the field and its message.\<close>

record verror =
  path :: string
  msg :: string

text \<open>The values a handler puts into the data of a view.\<close>

datatype local_value =
    Str string
  | Null
  | AuthorV author
  | GenreV genre
  | AuthorsV "author list"
  | GenresV "genre list"
  | BooksV "book_proj list"
  | ErrorsV "verror list"

datatype error =
    HttpError string nat
  | TypeError
  | DuplicateKey

text \<open>
  What a handler does to the response, in the order of its calls: \<^verbatim>\<open>res.render\<close>
  with the template and the data (the object literal as an association list),
  \<^verbatim>\<open>res.redirect\<close>, \<^verbatim>\<open>next(err)\<close>, and an exception that leaves the handler
  (\<^verbatim>\<open>asyncHandler\<close> hands it to \<^verbatim>\<open>next\<close>).
\<close>

datatype action =
    Render string "(string \<times> local_value) list"
  | Redirect string
  | Next error
  | Throw error

section \<open>The validation chains\<close>

text \<open>
  The sanitizers and validators of express-validator that the chains use, on strings of
  8-bit characters. \<^verbatim>\<open>trim\<close> removes leading, then trailing white space
  (the \<^verbatim>\<open>\s\<close> of a regular expression); \<^verbatim>\<open>escape\<close> replaces each of
  \<^verbatim>\<open>& " ' < > / \ `\<close> by its HTML entity; \<^verbatim>\<open>isAlphanumeric\<close> is the
  expression \<^verbatim>\<open>/^[0-9A-Z]+$/i\<close>.
\<close>

definition is_space :: "char \<Rightarrow> bool" where
  "is_space c = (let n = (of_char c :: nat) in (9 \<le> n \<and> n \<le> 13) \<or> n = 32 \<or> n = 160)"

definition trim :: "string \<Rightarrow> string" where
  "trim s = rev (dropWhile is_space (rev (dropWhile is_space s)))"

definition escape_char :: "char \<Rightarrow> string" where
  "escape_char c =
     (if c = CHR ''&'' then ''&amp;''
      else if c = CHR 0x22 then ''&quot;''
      else if c = CHR 0x27 then ''&#x27;''
      else if c = CHR ''<'' then ''&lt;''
      else if c = CHR ''>'' then ''&gt;''
      else if c = CHR ''/'' then ''&#x2F;''
      else if c = CHR 0x5C then ''&#x5C;''
      else if c = CHR 0x60 then ''&#96;''
      else [c])"

definition escape :: "string \<Rightarrow> string" where
  "escape s = concat (map escape_char s)"

definition is_alnum :: "char \<Rightarrow> bool" where
  "is_alnum c = (let n = (of_char c :: nat) in
     (48 \<le> n \<and> n \<le> 57) \<or> (65 \<le> n \<and> n \<le> 90) \<or> (97 \<le> n \<and> n \<le> 122))"

definition isAlphanumeric :: "string \<Rightarrow> bool" where
  "isAlphanumeric s = (s \<noteq> [] \<and> list_all is_alnum s)"

definition isLength :: "nat \<Rightarrow> string \<Rightarrow> bool" where
  "isLength m s = (m \<le> length s)"

text \<open>
  \<^verbatim>\<open>isISO8601\<close> and \<^verbatim>\<open>toDate\<close> are parameters: the ISO-8601 test of the
  validation library and the Date (or null) that it parses from a text.
\<close>

record validator =
  isISO8601 :: "string \<Rightarrow> bool"
  toDate :: "string \<Rightarrow> int option"

text \<open>
  A chain runs its items in order, without stopping at a failed validator; a sanitizer
  changes the value that later items and the handler see. The result is the value left
  in \<^verbatim>\<open>req.body\<close> and the errors of the chain.

  \<^verbatim>\<open>body(f).trim().isLength({ min: 1 }).escape().withMessage(m1).isAlphanumeric().withMessage(m2)\<close>:
  \<^verbatim>\<open>withMessage\<close> names the message of the validator before it.
\<close>

definition name_chain :: "string \<Rightarrow> string \<Rightarrow> string \<Rightarrow> string \<Rightarrow> string \<times> verror list" where
  "name_chain f m1 m2 v =
     (let v1 = trim v;
          e1 = (if isLength 1 v1 then [] else [\<lparr>path = f, msg = m1\<rparr>]);
          v2 = escape v1;
          e2 = (if isAlphanumeric v2 then [] else [\<lparr>path = f, msg = m2\<rparr>])
      in (v2, e1 @ e2))"

text \<open>
  \<^verbatim>\<open>body(f, m).optional({ values: 'falsy' }).isISO8601().toDate()\<close>: an empty text
  skips the chain.
\<close>

definition date_chain :: "validator \<Rightarrow> string \<Rightarrow> string \<Rightarrow> string \<Rightarrow> date_value \<times> verror list" where
  "date_chain V f m v =
     (if v = [] then (Raw v, [])
      else (Parsed (toDate V v), if isISO8601 V v then [] else [\<lparr>path = f, msg = m\<rparr>]))"

text \<open>\<^verbatim>\<open>body('name', m).trim().isLength({ min: n }).escape()\<close>\<close>

definition genre_chain :: "nat \<Rightarrow> string \<Rightarrow> string \<Rightarrow> string \<times> verror list" where
  "genre_chain n m v =
     (let v1 = trim v;
          e1 = (if isLength n v1 then [] else [\<lparr>path = ''name'', msg = m\<rparr>]);
          v2 = escape v1
      in (v2, e1))"

text \<open>The chain of \<^verbatim>\<open>genre_create_post\<close> and the chain of \<^verbatim>\<open>genre_update_post\<close>.\<close>

definition genre_create_chain :: "string \<Rightarrow> string \<times> verror list" where
  "genre_create_chain = genre_chain 3 ''Genre name must contain at least 3 characters''"

definition genre_update_chain :: "string \<Rightarrow> string \<times> verror list" where
  "genre_update_chain = genre_chain 1 ''Invalid Genre Value''"

text \<open>
  The four chains of \<^verbatim>\<open>author_create_post\<close> and \<^verbatim>\<open>author_update_post\<close>
  (the two arrays hold the same chains): the candidate fields left in the body, and
  the errors in the order of the chains.
\<close>

definition author_chains :: "validator \<Rightarrow> author_req \<Rightarrow> (string \<times> string \<times> date_value \<times> date_value) \<times> verror list" where
  "author_chains V req =
     (let (fn, e1) = name_chain ''first_name'' ''First name must be specified''
                        ''First name has non-alphanumeric characters'' (body_first_name req);
          (ln, e2) = name_chain ''family_name'' ''Family name must be specified.''
                        ''Family name has non-alphanumeric characters.'' (body_family_name req);
          (db, e3) = date_chain V ''date_of_birth'' ''invalid date of birth'' (body_date_of_birth req);
          (dd, e4) = date_chain V ''date_of_death'' ''invalid date of death'' (body_date_of_death req)
      in ((fn, ln, db, dd), e1 @ e2 @ e3 @ e4))"

text \<open>
  \<^verbatim>\<open>new Author({ first_name: req.body.first_name, ... })\<close> on the body that the
  chains have left, with the identifier \<open>i\<close>: the one that the constructor generates,
  or \<^verbatim>\<open>_id: req.params.id\<close>.
\<close>

definition new_Author :: "validator \<Rightarrow> ident \<Rightarrow> author_req \<Rightarrow> author" where
  "new_Author V i req =
     (let (fn, ln, db, dd) = fst (author_chains V req)
      in \<lparr>author_id = i, first_name = fn, family_name = ln,
          date_of_birth = db, date_of_death = dd\<rparr>)"

section \<open>The document store\<close>

text \<open>
  The queries of the object-document mapper on a collection held as a list.
  \<^verbatim>\<open>findOne\<close> and \<^verbatim>\<open>findById\<close> give the first match or null;
  \<^verbatim>\<open>findByIdAndUpdate\<close> replaces the first match and gives the document as it
  was before, or null; \<^verbatim>\<open>findByIdAndDelete\<close> removes the first match;
  \<^verbatim>\<open>save\<close> inserts a new document at the end and fails on an identifier that the
  collection already holds.
\<close>

fun update_first :: "('a \<Rightarrow> bool) \<Rightarrow> 'a \<Rightarrow> 'a list \<Rightarrow> 'a list" where
  "update_first P y [] = []"
| "update_first P y (x # xs) = (if P x then y # xs else x # update_first P y xs)"

fun delete_first :: "('a \<Rightarrow> bool) \<Rightarrow> 'a list \<Rightarrow> 'a list" where
  "delete_first P [] = []"
| "delete_first P (x # xs) = (if P x then xs else x # delete_first P xs)"

definition project :: "string list \<Rightarrow> book \<Rightarrow> book_proj" where
  "project fs b =
     \<lparr>bp_id = book_id b,
      bp_title = (if ''title'' \<in> set fs then Some (book_title b) else None),
      bp_summary = (if ''summary'' \<in> set fs then Some (book_summary b) else None)\<rparr>"

definition Book_find :: "(book \<Rightarrow> bool) \<Rightarrow> string list \<Rightarrow> store \<Rightarrow> book_proj list" where
  "Book_find P fs st = map (project fs) (filter P (books st))"

definition Author_findById :: "ident \<Rightarrow> store \<Rightarrow> author option" where
  "Author_findById i st = find (\<lambda>a. author_id a = i) (authors st)"

definition Genre_findById :: "ident \<Rightarrow> store \<Rightarrow> genre option" where
  "Genre_findById i st = find (\<lambda>g. genre_id g = i) (genres st)"

definition Author_findByIdAndUpdate :: "ident \<Rightarrow> author \<Rightarrow> store \<Rightarrow> store \<times> author option" where
  "Author_findByIdAndUpdate i a st =
     (st\<lparr>authors := update_first (\<lambda>x. author_id x = i) a (authors st)\<rparr>, Author_findById i st)"

definition Genre_findByIdAndUpdate :: "ident \<Rightarrow> genre \<Rightarrow> store \<Rightarrow> store \<times> genre option" where
  "Genre_findByIdAndUpdate i g st =
     (st\<lparr>genres := update_first (\<lambda>x. genre_id x = i) g (genres st)\<rparr>, Genre_findById i st)"

definition Author_findByIdAndDelete :: "ident \<Rightarrow> store \<Rightarrow> store" where
  "Author_findByIdAndDelete i st = st\<lparr>authors := delete_first (\<lambda>x. author_id x = i) (authors st)\<rparr>"

definition Genre_findByIdAndDelete :: "ident \<Rightarrow> store \<Rightarrow> store" where
  "Genre_findByIdAndDelete i st = st\<lparr>genres := delete_first (\<lambda>x. genre_id x = i) (genres st)\<rparr>"

definition Author_save :: "author \<Rightarrow> store \<Rightarrow> error + store" where
  "Author_save a st =
     (if author_id a \<in> set (map author_id (authors st)) then Inl DuplicateKey
      else Inr (st\<lparr>authors := authors st @ [a]\<rparr>))"

definition Genre_save :: "genre \<Rightarrow> store \<Rightarrow> error + store" where
  "Genre_save g st =
     (if genre_id g \<in> set (map genre_id (genres st)) then Inl DuplicateKey
      else Inr (st\<lparr>genres := genres st @ [g]\<rparr>))"

section \<open>The Author controller\<close>

definition author_local :: "author option \<Rightarrow> local_value" where
  "author_local a = (case a of None \<Rightarrow> Null | Some x \<Rightarrow> AuthorV x)"

text \<open>\<^verbatim>\<open>Author.find().sort({ family_name: 1 })\<close>\<close>

definition author_list :: "store \<Rightarrow> action list" where
  "author_list st =
     (let allAuthors = sort_key family_name (authors st)
      in [Render ''author_list''
            [(''title'', Str ''Author List''), (''author_list'', AuthorsV allAuthors)]])"

definition author_detail :: "store \<Rightarrow> author_req \<Rightarrow> action list" where
  "author_detail st req =
     (let author = Author_findById (aparams_id req) st;
          allBooksByAuthor =
            Book_find (\<lambda>b. book_author b = aparams_id req) [''title'', ''summary''] st
      in case author of
           None \<Rightarrow> [Next (HttpError ''Author not found'' 404)]
         | Some a \<Rightarrow>
             [Render ''author_detail''
                [(''title'', Str ''Author detail''), (''author'', AuthorV a),
                 (''author_books'', BooksV allBooksByAuthor)]])"

definition author_create_get :: "action list" where
  "author_create_get = [Render ''author_form'' [(''title'', Str ''Create Author'')]]"

text \<open>
  \<open>newid\<close> is the identifier that \<^verbatim>\<open>new Author(...)\<close> generates for the
  candidate document.
\<close>

definition author_create_post :: "validator \<Rightarrow> ident \<Rightarrow> store \<Rightarrow> author_req \<Rightarrow> store \<times> action list" where
  "author_create_post V newid st req =
     (let errors = snd (author_chains V req);
          author = new_Author V newid req
      in if errors \<noteq> [] then
           (st, [Render ''author_form''
                   [(''title'', Str ''Create Author''), (''author'', AuthorV author),
                    (''errors'', ErrorsV errors)]])
         else
           (case find (\<lambda>a. first_name a = first_name author \<and>
                            family_name a = family_name author) (authors st) of
              Some authorExists \<Rightarrow> (st, [Redirect (author_url (author_id authorExists))])
            | None \<Rightarrow>
                (case Author_save author st of
                   Inl e \<Rightarrow> (st, [Throw e])
                 | Inr st' \<Rightarrow> (st', [Redirect (author_url (author_id author))]))))"

text \<open>The branch for an absent author has no \<^verbatim>\<open>return\<close>: the handler goes on to render.\<close>

definition author_delete_get :: "store \<Rightarrow> author_req \<Rightarrow> action list" where
  "author_delete_get st req =
     (let author = Author_findById (aparams_id req) st;
          allBooksByAuthor =
            Book_find (\<lambda>b. book_author b = aparams_id req) [''title'', ''summary''] st
      in (if author = None then [Redirect ''/catalog/authors''] else []) @
         [Render ''author_delete''
            [(''title'', Str ''Delete Author''), (''author'', author_local author),
             (''author_books'', BooksV allBooksByAuthor)]])"

definition author_delete_post :: "store \<Rightarrow> author_req \<Rightarrow> store \<times> action list" where
  "author_delete_post st req =
     (let author = Author_findById (aparams_id req) st;
          allBooksByAuthor =
            Book_find (\<lambda>b. book_author b = aparams_id req) [''title'', ''summary''] st
      in if length allBooksByAuthor > 0 then
           (st, [Render ''author_delete''
                   [(''title'', Str ''Delete Author''), (''author'', author_local author),
                    (''author_books'', BooksV allBooksByAuthor)]])
         else
           (Author_findByIdAndDelete (body_authorid req) st, [Redirect ''/catalog/authors'']))"

definition author_update_get :: "store \<Rightarrow> author_req \<Rightarrow> action list" where
  "author_update_get st req =
     (case Author_findById (aparams_id req) st of
        None \<Rightarrow> [Next (HttpError ''Author not found'' 404)]
      | Some a \<Rightarrow>
          [Render ''author_form'' [(''title'', Str ''Update Author''), (''author'', AuthorV a)]])"

definition author_update_post :: "validator \<Rightarrow> store \<Rightarrow> author_req \<Rightarrow> store \<times> action list" where
  "author_update_post V st req =
     (let errors = snd (author_chains V req);
          updatedAuthor = new_Author V (aparams_id req) req
      in if errors \<noteq> [] then
           (st, [Render ''author_form''
                   [(''title'', Str ''Update Author''), (''author'', AuthorV updatedAuthor),
                    (''errors'', ErrorsV errors)]])
         else
           (fst (Author_findByIdAndUpdate (aparams_id req) updatedAuthor st),
            [Redirect (author_url (author_id updatedAuthor))]))"

section \<open>The Genre controller\<close>

definition genre_local :: "genre option \<Rightarrow> local_value" where
  "genre_local g = (case g of None \<Rightarrow> Null | Some x \<Rightarrow> GenreV x)"

definition genre_list :: "store \<Rightarrow> action list" where
  "genre_list st =
     (let allGenres = genres st
      in [Render ''genre_list''
            [(''title'', Str ''Genre List''), (''genre_list'', GenresV allGenres)]])"

definition genre_detail :: "store \<Rightarrow> genre_req \<Rightarrow> action list" where
  "genre_detail st req =
     (let genre = Genre_findById (gparams_id req) st;
          booksInGenre =
            Book_find (\<lambda>b. book_genre b = gparams_id req) [''title'', ''summary''] st
      in case genre of
           None \<Rightarrow> [Next (HttpError ''Genre not found'' 404)]
         | Some g \<Rightarrow>
             [Render ''genre_detail''
                [(''title'', Str ''Genre Detail''), (''genre'', GenreV g),
                 (''genre_books'', BooksV booksInGenre)]])"

definition genre_create_get :: "action list" where
  "genre_create_get = [Render ''genre_form'' [(''title'', Str ''Create Genre'')]]"

definition genre_create_post :: "ident \<Rightarrow> store \<Rightarrow> genre_req \<Rightarrow> store \<times> action list" where
  "genre_create_post newid st req =
     (let (name, errors) = genre_create_chain (body_name req);
          genre = \<lparr>genre_id = newid, genre_name = name\<rparr>
      in if errors \<noteq> [] then
           (st, [Render ''genre_form''
                   [(''title'', Str ''Create Genre''), (''genre'', GenreV genre),
                    (''errors'', ErrorsV errors)]])
         else
           (case find (\<lambda>g. genre_name g = name) (genres st) of
              Some genreExists \<Rightarrow> (st, [Redirect (genre_url (genre_id genreExists))])
            | None \<Rightarrow>
                (case Genre_save genre st of
                   Inl e \<Rightarrow> (st, [Throw e])
                 | Inr st' \<Rightarrow> (st', [Redirect (genre_url (genre_id genre))]))))"

text \<open>
  The projection of the two delete handlers names the field \<^verbatim>\<open>sumarry\<close>, and the
  branch of \<^verbatim>\<open>genre_delete_get\<close> for an absent genre has no \<^verbatim>\<open>return\<close>.
\<close>

definition genre_delete_get :: "store \<Rightarrow> genre_req \<Rightarrow> action list" where
  "genre_delete_get st req =
     (let genre = Genre_findById (gparams_id req) st;
          booksInGenre =
            Book_find (\<lambda>b. book_genre b = gparams_id req) [''title'', ''sumarry''] st
      in (if genre = None then [Redirect ''/catalog/genre''] else []) @
         [Render ''genre_delete''
            [(''title'', Str ''Delete Genre''), (''genre'', genre_local genre),
             (''genre_books'', BooksV booksInGenre)]])"

definition genre_delete_post :: "store \<Rightarrow> genre_req \<Rightarrow> store \<times> action list" where
  "genre_delete_post st req =
     (let genre = Genre_findById (gparams_id req) st;
          booksInGenre =
            Book_find (\<lambda>b. book_genre b = gparams_id req) [''title'', ''sumarry''] st
      in if length booksInGenre > 0 then
           (st, [Render ''genre_delete''
                   [(''title'', Str ''Delete Genre''), (''genre'', genre_local genre),
                    (''genre_books'', BooksV booksInGenre)]])
         else
           (Genre_findByIdAndDelete (body_genreid req) st, [Redirect ''/catalog/genres'']))"

definition genre_update_get :: "store \<Rightarrow> genre_req \<Rightarrow> action list" where
  "genre_update_get st req =
     (let genre = Genre_findById (gparams_id req) st
      in (if genre = None then [Redirect ''/catalog/genres''] else []) @
         [Render ''genre_form''
            [(''title'', Str ''Update Genre''), (''genre'', genre_local genre)]])"

text \<open>
  \<^verbatim>\<open>updatedGenre\<close> is what \<^verbatim>\<open>findByIdAndUpdate\<close> returns; reading
  \<^verbatim>\<open>url\<close> of null throws a TypeError.
\<close>

definition genre_update_post :: "store \<Rightarrow> genre_req \<Rightarrow> store \<times> action list" where
  "genre_update_post st req =
     (let (name, errors) = genre_update_chain (body_name req);
          genre = \<lparr>genre_id = gparams_id req, genre_name = name\<rparr>
      in if errors \<noteq> [] then
           (st, [Render ''genre_form''
                   [(''title'', Str ''Update Genre''), (''genre'', GenreV genre),
                    (''errors'', ErrorsV errors)]])
         else
           (case Genre_findByIdAndUpdate (gparams_id req) genre st of
              (st', None) \<Rightarrow> (st', [Throw TypeError])
            | (st', Some updatedGenre) \<Rightarrow>
                (st', [Redirect (genre_url (genre_id updatedGenre))])))"

section \<open>Sample data\<close>

text \<open>
  A small catalogue for the concrete instances below: two Authors and two Genres, and one
  Book, which references the Author \<^verbatim>\<open>a1\<close> and the Genre \<^verbatim>\<open>g1\<close>. The sample
  validator stands for the validation library on the texts that the instances use: it
  knows one ISO-8601 date.
\<close>

definition sample_validator :: validator where
  "sample_validator =
     \<lparr>isISO8601 = (\<lambda>s. s = ''1920-01-02''),
      toDate = (\<lambda>s. if s = ''1920-01-02'' then Some (- 1577836800000) else None)\<rparr>"

definition sample_store :: store where
  "sample_store =
     \<lparr>authors =
        [\<lparr>author_id = ''a1'', first_name = ''Jane'', family_name = ''Austen'',
          date_of_birth = Raw [], date_of_death = Raw []\<rparr>,
         \<lparr>author_id = ''a2'', first_name = ''Isaac'', family_name = ''Asimov'',
          date_of_birth = Parsed (Some (- 1577836800000)), date_of_death = Raw []\<rparr>],
      genres =
        [\<lparr>genre_id = ''g1'', genre_name = ''Fiction''\<rparr>,
         \<lparr>genre_id = ''g2'', genre_name = ''Poetry''\<rparr>],
      books =
        [\<lparr>book_id = ''b1'', book_title = ''Emma'', book_summary = ''A novel'',
          book_author = ''a1'', book_genre = ''g1''\<rparr>]\<rparr>"

text \<open>
  A wider catalogue with three Authors and three Genres: the Books reference the first
  two of each, the third has none.
\<close>

definition wider_store :: store where
  "wider_store =
     \<lparr>authors =
        [\<lparr>author_id = ''a1'', first_name = ''Jane'', family_name = ''Austen'',
          date_of_birth = Raw [], date_of_death = Raw []\<rparr>,
         \<lparr>author_id = ''a2'', first_name = ''Isaac'', family_name = ''Asimov'',
          date_of_birth = Parsed (Some (- 1577836800000)), date_of_death = Raw []\<rparr>,
         \<lparr>author_id = ''a3'', first_name = ''Mary'', family_name = ''Shelley'',
          date_of_birth = Raw [], date_of_death = Raw []\<rparr>],
      genres =
        [\<lparr>genre_id = ''g1'', genre_name = ''Fiction''\<rparr>,
         \<lparr>genre_id = ''g2'', genre_name = ''Poetry''\<rparr>,
         \<lparr>genre_id = ''g3'', genre_name = ''Drama''\<rparr>],
      books =
        [\<lparr>book_id = ''b1'', book_title = ''Emma'', book_summary = ''A novel'',
          book_author = ''a1'', book_genre = ''g1''\<rparr>,
         \<lparr>book_id = ''b2'', book_title = ''Foundation'', book_summary = ''A cycle'',
          book_author = ''a2'', book_genre = ''g2''\<rparr>]\<rparr>"

section \<open>Facts about the store operations and the chains\<close>

lemma special_not_alnum:
  "\<not> is_alnum (CHR ''&'')" "\<not> is_alnum (CHR 0x22)" "\<not> is_alnum (CHR 0x27)"
  "\<not> is_alnum (CHR ''<'')" "\<not> is_alnum (CHR ''>'')" "\<not> is_alnum (CHR ''/'')"
  "\<not> is_alnum (CHR 0x5C)" "\<not> is_alnum (CHR 0x60)"
  by (simp_all add: is_alnum_def)

lemma escape_char_alnum:
  assumes "is_alnum c"
  shows "escape_char c = [c]"
proof -
  have "c \<noteq> CHR ''&''" "c \<noteq> CHR 0x22" "c \<noteq> CHR 0x27" "c \<noteq> CHR ''<''"
    "c \<noteq> CHR ''>''" "c \<noteq> CHR ''/''" "c \<noteq> CHR 0x5C" "c \<noteq> CHR 0x60"
    using assms special_not_alnum by blast+
  then show ?thesis
    by (simp add: escape_char_def)
qed

lemma escape_char_not_Nil: "escape_char c \<noteq> []"
  by (simp add: escape_char_def)

lemma escape_char_not_alnum: "\<not> is_alnum c \<Longrightarrow> \<not> list_all is_alnum (escape_char c)"
  by (simp add: escape_char_def special_not_alnum)

lemma escape_Cons: "escape (c # s) = escape_char c @ escape s"
  by (simp add: escape_def)

lemma escape_Nil_iff: "escape s = [] \<longleftrightarrow> s = []"
  by (cases s) (simp_all add: escape_def escape_char_not_Nil)

lemma escape_alnum_iff: "list_all is_alnum (escape s) \<longleftrightarrow> list_all is_alnum s"
proof (induction s)
  case Nil
  show ?case by (simp add: escape_def)
next
  case (Cons c s)
  show ?case
  proof (cases "is_alnum c")
    case True
    then show ?thesis using Cons by (simp add: escape_Cons escape_char_alnum)
  next
    case False
    then show ?thesis using escape_char_not_alnum [OF False] by (simp add: escape_Cons)
  qed
qed

lemma escape_alnum_id: "list_all is_alnum s \<Longrightarrow> escape s = s"
  by (induction s) (simp_all add: escape_def escape_char_alnum)

lemma isAlphanumeric_escape: "isAlphanumeric (escape s) \<longleftrightarrow> isAlphanumeric s"
  by (simp add: isAlphanumeric_def escape_Nil_iff escape_alnum_iff)

lemma length_escape: "length s \<le> length (escape s)"
proof (induction s)
  case Nil
  show ?case by (simp add: escape_def)
next
  case (Cons c s)
  have "1 \<le> length (escape_char c)" by (simp add: escape_char_def)
  then show ?case using Cons by (simp add: escape_Cons)
qed

lemma fst_genre_chain: "fst (genre_chain n m v) = escape (trim v)"
  by (simp add: genre_chain_def Let_def)

lemma snd_genre_chain: "snd (genre_chain n m v) = [] \<longleftrightarrow> n \<le> length (trim v)"
  by (simp add: genre_chain_def Let_def isLength_def)

lemma snd_name_chain:
  "snd (name_chain f m1 m2 v) = [] \<longleftrightarrow> isAlphanumeric (trim v)"
proof -
  have "isAlphanumeric (trim v) \<Longrightarrow> isLength 1 (trim v)"
    by (cases "trim v") (simp_all add: isAlphanumeric_def isLength_def)
  then show ?thesis
    by (auto simp: name_chain_def Let_def isAlphanumeric_escape)
qed

lemma fst_name_chain: "fst (name_chain f m1 m2 v) = escape (trim v)"
  by (simp add: name_chain_def Let_def)

lemma snd_date_chain: "snd (date_chain V f m v) = [] \<longleftrightarrow> v = [] \<or> isISO8601 V v"
  by (simp add: date_chain_def)

lemma fst_date_chain:
  "fst (date_chain V f m v) = (if v = [] then Raw [] else Parsed (toDate V v))"
  by (simp add: date_chain_def)

lemma snd_author_chains:
  "snd (author_chains V req) =
     snd (name_chain ''first_name'' ''First name must be specified''
            ''First name has non-alphanumeric characters'' (body_first_name req)) @
     snd (name_chain ''family_name'' ''Family name must be specified.''
            ''Family name has non-alphanumeric characters.'' (body_family_name req)) @
     snd (date_chain V ''date_of_birth'' ''invalid date of birth'' (body_date_of_birth req)) @
     snd (date_chain V ''date_of_death'' ''invalid date of death'' (body_date_of_death req))"
  by (simp add: author_chains_def Let_def case_prod_beta)

lemma fst_author_chains:
  "fst (author_chains V req) =
     (escape (trim (body_first_name req)), escape (trim (body_family_name req)),
      (if body_date_of_birth req = [] then Raw [] else Parsed (toDate V (body_date_of_birth req))),
      (if body_date_of_death req = [] then Raw [] else Parsed (toDate V (body_date_of_death req))))"
  by (simp add: author_chains_def Let_def case_prod_beta fst_name_chain fst_date_chain)

lemma new_Author_eq:
  "new_Author V i req =
     \<lparr>author_id = i,
      first_name = escape (trim (body_first_name req)),
      family_name = escape (trim (body_family_name req)),
      date_of_birth =
        (if body_date_of_birth req = [] then Raw [] else Parsed (toDate V (body_date_of_birth req))),
      date_of_death =
        (if body_date_of_death req = [] then Raw [] else Parsed (toDate V (body_date_of_death req)))\<rparr>"
  by (simp add: new_Author_def fst_author_chains)

lemma author_valid_iff:
  "snd (author_chains V req) = [] \<longleftrightarrow>
     isAlphanumeric (trim (body_first_name req)) \<and>
     isAlphanumeric (trim (body_family_name req)) \<and>
     (body_date_of_birth req = [] \<or> isISO8601 V (body_date_of_birth req)) \<and>
     (body_date_of_death req = [] \<or> isISO8601 V (body_date_of_death req))"
  unfolding snd_author_chains append_is_Nil_conv snd_name_chain snd_date_chain
  by (rule refl)

lemma update_first_absent: "find P xs = None \<Longrightarrow> update_first P y xs = xs"
  by (induction xs) (auto split: if_splits)

lemma find_update_first: "find P xs = Some x \<Longrightarrow> P y \<Longrightarrow> find P (update_first P y xs) = Some y"
  by (induction xs) (auto split: if_splits)

lemma filter_update_first: "P y \<Longrightarrow> filter (\<lambda>x. \<not> P x) (update_first P y xs) = filter (\<lambda>x. \<not> P x) xs"
  by (induction xs) auto

lemma map_update_first:
  "(\<And>x. P x \<Longrightarrow> f x = f y) \<Longrightarrow> map f (update_first P y xs) = map f xs"
  by (induction xs) auto

lemma delete_first_absent: "find P xs = None \<Longrightarrow> delete_first P xs = xs"
  by (induction xs) (auto split: if_splits)

lemma delete_first_split:
  "find P xs = Some x \<Longrightarrow>
     \<exists>ys zs. xs = ys @ x # zs \<and> (\<forall>y \<in> set ys. \<not> P y) \<and> delete_first P xs = ys @ zs"
proof (induction xs)
  case Nil
  then show ?case by simp
next
  case (Cons a xs)
  show ?case
  proof (cases "P a")
    case True
    with Cons.prems have "a = x" by simp
    with True have "a # xs = [] @ x # xs \<and> (\<forall>y \<in> set []. \<not> P y) \<and> delete_first P (a # xs) = [] @ xs"
      by simp
    then show ?thesis by blast
  next
    case False
    with Cons.prems have "find P xs = Some x" by simp
    from Cons.IH [OF this] obtain ys zs
      where s: "xs = ys @ x # zs" "\<forall>y \<in> set ys. \<not> P y" "delete_first P xs = ys @ zs"
      by blast
    with False have "a # xs = (a # ys) @ x # zs \<and> (\<forall>y \<in> set (a # ys). \<not> P y) \<and>
        delete_first P (a # xs) = (a # ys) @ zs"
      by simp
    then show ?thesis by blast
  qed
qed

lemma delete_first_distinct:
  "distinct (map f xs) \<Longrightarrow> delete_first (\<lambda>x. f x = i) xs = filter (\<lambda>x. f x \<noteq> i) xs"
proof (induction xs)
  case Nil
  show ?case by simp
next
  case (Cons a xs)
  show ?case
  proof (cases "f a = i")
    case True
    from Cons.prems have "f a \<notin> f ` set xs" by simp
    with True have "\<forall>x \<in> set xs. f x \<noteq> i" by blast
    then have "filter (\<lambda>x. f x \<noteq> i) xs = xs" by (simp add: filter_id_conv)
    with True show ?thesis by simp
  next
    case False
    with Cons show ?thesis by simp
  qed
qed

lemma find_append:
  "find P (xs @ ys) = (case find P xs of None \<Rightarrow> find P ys | Some x \<Rightarrow> Some x)"
  by (induction xs) auto

lemma find_Some_mem: "find P xs = Some x \<Longrightarrow> x \<in> set xs \<and> P x"
  by (induction xs) (auto split: if_splits)

lemma find_exists: "\<exists>x \<in> set xs. P x \<Longrightarrow> \<exists>y. find P xs = Some y"
  by (induction xs) auto

lemma fst_genre_create_chain: "fst (genre_create_chain v) = escape (trim v)"
  by (simp add: genre_create_chain_def fst_genre_chain)

lemma fst_genre_update_chain: "fst (genre_update_chain v) = escape (trim v)"
  by (simp add: genre_update_chain_def fst_genre_chain)

lemma snd_genre_create_chain: "snd (genre_create_chain v) = [] \<longleftrightarrow> 3 \<le> length (trim v)"
  by (simp add: genre_create_chain_def snd_genre_chain)

lemma snd_genre_update_chain: "snd (genre_update_chain v) = [] \<longleftrightarrow> 1 \<le> length (trim v)"
  by (simp add: genre_update_chain_def snd_genre_chain)

lemma name_error_mem:
  "\<not> list_all is_alnum (trim v) \<Longrightarrow> \<lparr>path = f, msg = m2\<rparr> \<in> set (snd (name_chain f m1 m2 v))"
  by (simp add: name_chain_def Let_def isAlphanumeric_def escape_alnum_iff)

lemmas chain_eval =
  author_chains_def name_chain_def date_chain_def genre_chain_def genre_create_chain_def
  genre_update_chain_def trim_def is_space_def escape_def escape_char_def isAlphanumeric_def
  is_alnum_def isLength_def new_Author_def Let_def

lemmas store_eval =
  sample_store_def sample_validator_def Author_findById_def Genre_findById_def Book_find_def
  project_def Author_findByIdAndUpdate_def Genre_findByIdAndUpdate_def
  Author_findByIdAndDelete_def Genre_findByIdAndDelete_def Author_save_def Genre_save_def
  author_url_def genre_url_def author_local_def genre_local_def

section \<open>Create\<close>

text \<open>
  Claim C1. A create submission that passes validation is looked up by its natural key,
  the name that the chains leave in the body (for a Genre) or the pair of first and
  family name (for an Author). If the collection holds a document with that key, the
  handler redirects to the url of such a document and the store is unchanged. If it
  holds none, and the generated identifier is not in the collection yet, the handler
  appends the candidate and redirects to the url of the new identifier; the same
  submission once more, with any newly generated identifier, redirects to that same url
  and leaves the store as it is.
\<close>

theorem create_avoids_duplicates:
  "(snd (genre_create_chain (body_name greq)) = [] \<and>
    (\<exists>g \<in> set (genres st). genre_name g = escape (trim (body_name greq))) \<longrightarrow>
      (\<exists>g \<in> set (genres st). genre_name g = escape (trim (body_name greq)) \<and>
         genre_create_post newid st greq = (st, [Redirect (genre_url (genre_id g))]))) \<and>
   (snd (genre_create_chain (body_name greq)) = [] \<and>
    (\<forall>g \<in> set (genres st). genre_name g \<noteq> escape (trim (body_name greq))) \<and>
    newid \<notin> set (map genre_id (genres st)) \<longrightarrow>
      genre_create_post newid st greq =
        (st\<lparr>genres := genres st @
                [\<lparr>genre_id = newid, genre_name = escape (trim (body_name greq))\<rparr>]\<rparr>,
         [Redirect (genre_url newid)]) \<and>
      genre_create_post otherid (fst (genre_create_post newid st greq)) greq =
        (fst (genre_create_post newid st greq), [Redirect (genre_url newid)])) \<and>
   (snd (author_chains V areq) = [] \<and>
    (\<exists>a \<in> set (authors st). first_name a = escape (trim (body_first_name areq)) \<and>
                             family_name a = escape (trim (body_family_name areq))) \<longrightarrow>
      (\<exists>a \<in> set (authors st). first_name a = escape (trim (body_first_name areq)) \<and>
                              family_name a = escape (trim (body_family_name areq)) \<and>
         author_create_post V newid st areq = (st, [Redirect (author_url (author_id a))]))) \<and>
   (snd (author_chains V areq) = [] \<and>
    (\<forall>a \<in> set (authors st). \<not> (first_name a = escape (trim (body_first_name areq)) \<and>
                                family_name a = escape (trim (body_family_name areq)))) \<and>
    newid \<notin> set (map author_id (authors st)) \<longrightarrow>
      author_create_post V newid st areq =
        (st\<lparr>authors := authors st @ [new_Author V newid areq]\<rparr>,
         [Redirect (author_url newid)]) \<and>
      author_create_post V otherid (fst (author_create_post V newid st areq)) areq =
        (fst (author_create_post V newid st areq), [Redirect (author_url newid)]))"
proof (intro conjI impI)
  let ?k = "escape (trim (body_name greq))"
  assume h: "snd (genre_create_chain (body_name greq)) = [] \<and>
    (\<exists>g \<in> set (genres st). genre_name g = ?k)"
  then obtain y where y: "find (\<lambda>g. genre_name g = ?k) (genres st) = Some y"
    using find_exists [of "genres st" "\<lambda>g. genre_name g = ?k"] by blast
  have r: "genre_create_post newid st greq = (st, [Redirect (genre_url (genre_id y))])"
    using h y
    by (simp add: genre_create_post_def Let_def case_prod_beta fst_genre_create_chain)
  show "\<exists>g \<in> set (genres st). genre_name g = ?k \<and>
         genre_create_post newid st greq = (st, [Redirect (genre_url (genre_id g))])"
    using find_Some_mem [OF y] r by blast
next
  let ?k = "escape (trim (body_name greq))"
  let ?g = "\<lparr>genre_id = newid, genre_name = ?k\<rparr>"
  assume h: "snd (genre_create_chain (body_name greq)) = [] \<and>
    (\<forall>g \<in> set (genres st). genre_name g \<noteq> ?k) \<and> newid \<notin> set (map genre_id (genres st))"
  then have n: "find (\<lambda>g. genre_name g = ?k) (genres st) = None"
    by (simp add: find_None_iff)
  show r: "genre_create_post newid st greq =
        (st\<lparr>genres := genres st @ [?g]\<rparr>, [Redirect (genre_url newid)])"
    using h n
    by (simp add: genre_create_post_def Let_def case_prod_beta fst_genre_create_chain
        Genre_save_def)
  have "find (\<lambda>g. genre_name g = ?k) (genres st @ [?g]) = Some ?g"
    using n by (simp add: find_append)
  then show "genre_create_post otherid (fst (genre_create_post newid st greq)) greq =
        (fst (genre_create_post newid st greq), [Redirect (genre_url newid)])"
    unfolding r using h
    by (simp add: genre_create_post_def Let_def case_prod_beta fst_genre_create_chain)
next
  let ?P = "\<lambda>a. first_name a = escape (trim (body_first_name areq)) \<and>
                 family_name a = escape (trim (body_family_name areq))"
  assume h: "snd (author_chains V areq) = [] \<and> (\<exists>a \<in> set (authors st). ?P a)"
  then obtain y where y: "find ?P (authors st) = Some y"
    using find_exists [of "authors st" ?P] by blast
  have r: "author_create_post V newid st areq = (st, [Redirect (author_url (author_id y))])"
    using h y by (simp add: author_create_post_def Let_def new_Author_eq)
  show "\<exists>a \<in> set (authors st). first_name a = escape (trim (body_first_name areq)) \<and>
                              family_name a = escape (trim (body_family_name areq)) \<and>
         author_create_post V newid st areq = (st, [Redirect (author_url (author_id a))])"
    using find_Some_mem [OF y] r by blast
next
  let ?P = "\<lambda>a. first_name a = escape (trim (body_first_name areq)) \<and>
                 family_name a = escape (trim (body_family_name areq))"
  let ?a = "new_Author V newid areq"
  assume h: "snd (author_chains V areq) = [] \<and> (\<forall>a \<in> set (authors st). \<not> ?P a) \<and>
    newid \<notin> set (map author_id (authors st))"
  then have n: "find ?P (authors st) = None"
    by (simp add: find_None_iff)
  have pa: "?P ?a" and ia: "author_id ?a = newid"
    by (simp_all add: new_Author_eq)
  have k: "\<And>i. first_name (new_Author V i areq) = escape (trim (body_first_name areq))"
    "\<And>i. family_name (new_Author V i areq) = escape (trim (body_family_name areq))"
    by (simp_all add: new_Author_eq)
  show r: "author_create_post V newid st areq =
        (st\<lparr>authors := authors st @ [?a]\<rparr>, [Redirect (author_url newid)])"
    using h n ia by (simp add: author_create_post_def Let_def k Author_save_def)
  have "find ?P (authors st @ [?a]) = Some ?a"
    using n pa by (simp add: find_append)
  then show "author_create_post V otherid (fst (author_create_post V newid st areq)) areq =
        (fst (author_create_post V newid st areq), [Redirect (author_url newid)])"
    unfolding r using h ia by (simp add: author_create_post_def Let_def k)
qed

text \<open>
  An instance on the sample catalogue: the Genre \<^verbatim>\<open>Fantasy\<close> and the Author Mary
  Shelley are new and are inserted once, \<^verbatim>\<open>Poetry\<close> and Jane Austen exist.
\<close>

theorem create_avoids_duplicates_witness:
  "genre_create_post ''g3'' sample_store
     \<lparr>gparams_id = [], body_name = '' Fantasy'', body_genreid = []\<rparr> =
     (sample_store\<lparr>genres := genres sample_store @
        [\<lparr>genre_id = ''g3'', genre_name = ''Fantasy''\<rparr>]\<rparr>,
      [Redirect ''/genre/g3'']) \<and>
   genre_create_post ''g4''
     (sample_store\<lparr>genres := genres sample_store @
        [\<lparr>genre_id = ''g3'', genre_name = ''Fantasy''\<rparr>]\<rparr>)
     \<lparr>gparams_id = [], body_name = '' Fantasy'', body_genreid = []\<rparr> =
     (sample_store\<lparr>genres := genres sample_store @
        [\<lparr>genre_id = ''g3'', genre_name = ''Fantasy''\<rparr>]\<rparr>,
      [Redirect ''/genre/g3'']) \<and>
   genre_create_post ''g3'' sample_store
     \<lparr>gparams_id = [], body_name = ''Poetry'', body_genreid = []\<rparr> =
     (sample_store, [Redirect ''/genre/g2'']) \<and>
   author_create_post sample_validator ''a3'' sample_store
     \<lparr>aparams_id = [], body_first_name = ''Mary'', body_family_name = ''Shelley'',
      body_date_of_birth = [], body_date_of_death = [], body_authorid = []\<rparr> =
     (sample_store\<lparr>authors := authors sample_store @
        [\<lparr>author_id = ''a3'', first_name = ''Mary'', family_name = ''Shelley'',
          date_of_birth = Raw [], date_of_death = Raw []\<rparr>]\<rparr>,
      [Redirect ''/author/a3'']) \<and>
   author_create_post sample_validator ''a4''
     (sample_store\<lparr>authors := authors sample_store @
        [\<lparr>author_id = ''a3'', first_name = ''Mary'', family_name = ''Shelley'',
          date_of_birth = Raw [], date_of_death = Raw []\<rparr>]\<rparr>)
     \<lparr>aparams_id = [], body_first_name = ''Mary'', body_family_name = ''Shelley'',
      body_date_of_birth = [], body_date_of_death = [], body_authorid = []\<rparr> =
     (sample_store\<lparr>authors := authors sample_store @
        [\<lparr>author_id = ''a3'', first_name = ''Mary'', family_name = ''Shelley'',
          date_of_birth = Raw [], date_of_death = Raw []\<rparr>]\<rparr>,
      [Redirect ''/author/a3'']) \<and>
   author_create_post sample_validator ''a3'' sample_store
     \<lparr>aparams_id = [], body_first_name = ''Jane'', body_family_name = ''Austen'',
      body_date_of_birth = ''1920-01-02'', body_date_of_death = [], body_authorid = []\<rparr> =
     (sample_store, [Redirect ''/author/a1''])"
proof -
  let ?g1 = "\<lparr>gparams_id = [], body_name = '' Fantasy'', body_genreid = []\<rparr>"
  let ?g2 = "\<lparr>gparams_id = [], body_name = ''Poetry'', body_genreid = []\<rparr>"
  let ?a1 = "\<lparr>aparams_id = [], body_first_name = ''Mary'', body_family_name = ''Shelley'',
      body_date_of_birth = [], body_date_of_death = [], body_authorid = []\<rparr>"
  let ?a2 = "\<lparr>aparams_id = [], body_first_name = ''Jane'', body_family_name = ''Austen'',
      body_date_of_birth = ''1920-01-02'', body_date_of_death = [], body_authorid = []\<rparr>"
  have h1: "snd (genre_create_chain (body_name ?g1)) = [] \<and>
      (\<forall>g \<in> set (genres sample_store). genre_name g \<noteq> escape (trim (body_name ?g1))) \<and>
      ''g3'' \<notin> set (map genre_id (genres sample_store))"
    by (simp add: chain_eval sample_store_def)
  have h2: "snd (genre_create_chain (body_name ?g2)) = [] \<and>
      (\<exists>g \<in> set (genres sample_store). genre_name g = escape (trim (body_name ?g2)))"
    by (simp add: chain_eval sample_store_def)
  have h3: "snd (author_chains sample_validator ?a1) = [] \<and>
      (\<forall>a \<in> set (authors sample_store).
         \<not> (first_name a = escape (trim (body_first_name ?a1)) \<and>
            family_name a = escape (trim (body_family_name ?a1)))) \<and>
      ''a3'' \<notin> set (map author_id (authors sample_store))"
    by (simp add: chain_eval sample_store_def sample_validator_def)
  have h4: "snd (author_chains sample_validator ?a2) = [] \<and>
      (\<exists>a \<in> set (authors sample_store).
         first_name a = escape (trim (body_first_name ?a2)) \<and>
         family_name a = escape (trim (body_family_name ?a2)))"
    by (simp add: chain_eval sample_store_def sample_validator_def)
  have f1: "genre_create_post ''g3'' sample_store ?g1 =
        (sample_store\<lparr>genres := genres sample_store @
                [\<lparr>genre_id = ''g3'', genre_name = escape (trim (body_name ?g1))\<rparr>]\<rparr>,
         [Redirect (genre_url ''g3'')]) \<and>
      genre_create_post ''g4'' (fst (genre_create_post ''g3'' sample_store ?g1)) ?g1 =
        (fst (genre_create_post ''g3'' sample_store ?g1), [Redirect (genre_url ''g3'')])"
    using create_avoids_duplicates
        [where greq = ?g1 and st = sample_store and newid = "''g3''" and otherid = "''g4''"
           and V = sample_validator and areq = ?a1] h1
    by blast
  have f2: "\<exists>g \<in> set (genres sample_store). genre_name g = escape (trim (body_name ?g2)) \<and>
         genre_create_post ''g3'' sample_store ?g2 = (sample_store, [Redirect (genre_url (genre_id g))])"
    using create_avoids_duplicates
        [where greq = ?g2 and st = sample_store and newid = "''g3''" and otherid = "''g4''"
           and V = sample_validator and areq = ?a2] h2
    by blast
  have f3: "author_create_post sample_validator ''a3'' sample_store ?a1 =
        (sample_store\<lparr>authors := authors sample_store @ [new_Author sample_validator ''a3'' ?a1]\<rparr>,
         [Redirect (author_url ''a3'')]) \<and>
      author_create_post sample_validator ''a4''
        (fst (author_create_post sample_validator ''a3'' sample_store ?a1)) ?a1 =
        (fst (author_create_post sample_validator ''a3'' sample_store ?a1), [Redirect (author_url ''a3'')])"
    using create_avoids_duplicates
        [where greq = ?g1 and st = sample_store and newid = "''a3''" and otherid = "''a4''"
           and V = sample_validator and areq = ?a1] h3
    by blast
  have f4: "\<exists>a \<in> set (authors sample_store).
         first_name a = escape (trim (body_first_name ?a2)) \<and>
         family_name a = escape (trim (body_family_name ?a2)) \<and>
         author_create_post sample_validator ''a3'' sample_store ?a2 =
           (sample_store, [Redirect (author_url (author_id a))])"
    using create_avoids_duplicates
        [where greq = ?g2 and st = sample_store and newid = "''a3''" and otherid = "''a4''"
           and V = sample_validator and areq = ?a2] h4
    by blast
  have k: "escape (trim '' Fantasy'') = ''Fantasy''" "escape (trim ''Poetry'') = ''Poetry''"
    "escape (trim ''Jane'') = ''Jane''" "escape (trim ''Austen'') = ''Austen''"
    by (simp_all add: trim_def is_space_def escape_def escape_char_def)
  have n: "new_Author sample_validator ''a3'' ?a1 =
             \<lparr>author_id = ''a3'', first_name = ''Mary'', family_name = ''Shelley'',
              date_of_birth = Raw [], date_of_death = Raw []\<rparr>"
    by (simp add: new_Author_eq trim_def is_space_def escape_def escape_char_def)
  have f2': "genre_create_post ''g3'' sample_store ?g2 = (sample_store, [Redirect ''/genre/g2''])"
    using f2 by (auto simp: k sample_store_def genre_url_def)
  have f4': "author_create_post sample_validator ''a3'' sample_store ?a2 =
           (sample_store, [Redirect ''/author/a1''])"
    using f4 by (auto simp: k sample_store_def author_url_def)
  note f1a = f1 [THEN conjunct1]
  note f1b = f1 [THEN conjunct2, unfolded f1a fst_conv]
  note f3a = f3 [THEN conjunct1]
  note f3b = f3 [THEN conjunct2, unfolded f3a fst_conv]
  show ?thesis
    using f1a f1b f3a f3b unfolding n f2' f4' by (simp add: k genre_url_def author_url_def)
qed

section \<open>Validation\<close>

text \<open>
  Claim C6. When the chains of a create or update submission leave an error, the handler
  renders the form it came from, with the candidate entity and the errors in the order
  of the chains, and the store is unchanged. The candidate holds the submitted values
  as the chains leave them (trimmed and escaped names, parsed or untouched dates), with
  the generated identifier on create and the route identifier on update.
\<close>

theorem validation_failure_renders_form:
  "(snd (author_chains V areq) \<noteq> [] \<longrightarrow>
      author_create_post V newid st areq =
        (st, [Render ''author_form''
                [(''title'', Str ''Create Author''), (''author'', AuthorV (new_Author V newid areq)),
                 (''errors'', ErrorsV (snd (author_chains V areq)))]]) \<and>
      author_update_post V st areq =
        (st, [Render ''author_form''
                [(''title'', Str ''Update Author''),
                 (''author'', AuthorV (new_Author V (aparams_id areq) areq)),
                 (''errors'', ErrorsV (snd (author_chains V areq)))]])) \<and>
   (snd (genre_create_chain (body_name greq)) \<noteq> [] \<longrightarrow>
      genre_create_post newid st greq =
        (st, [Render ''genre_form''
                [(''title'', Str ''Create Genre''),
                 (''genre'', GenreV \<lparr>genre_id = newid, genre_name = escape (trim (body_name greq))\<rparr>),
                 (''errors'', ErrorsV (snd (genre_create_chain (body_name greq))))]])) \<and>
   (snd (genre_update_chain (body_name greq)) \<noteq> [] \<longrightarrow>
      genre_update_post st greq =
        (st, [Render ''genre_form''
                [(''title'', Str ''Update Genre''),
                 (''genre'', GenreV \<lparr>genre_id = gparams_id greq,
                                     genre_name = escape (trim (body_name greq))\<rparr>),
                 (''errors'', ErrorsV (snd (genre_update_chain (body_name greq))))]])) \<and>
   new_Author V i areq =
     \<lparr>author_id = i,
      first_name = escape (trim (body_first_name areq)),
      family_name = escape (trim (body_family_name areq)),
      date_of_birth =
        (if body_date_of_birth areq = [] then Raw []
         else Parsed (toDate V (body_date_of_birth areq))),
      date_of_death =
        (if body_date_of_death areq = [] then Raw []
         else Parsed (toDate V (body_date_of_death areq)))\<rparr>"
proof (intro conjI impI)
  assume "snd (author_chains V areq) \<noteq> []"
  then show "author_create_post V newid st areq =
        (st, [Render ''author_form''
                [(''title'', Str ''Create Author''), (''author'', AuthorV (new_Author V newid areq)),
                 (''errors'', ErrorsV (snd (author_chains V areq)))]])"
    by (simp add: author_create_post_def Let_def)
next
  assume "snd (author_chains V areq) \<noteq> []"
  then show "author_update_post V st areq =
        (st, [Render ''author_form''
                [(''title'', Str ''Update Author''),
                 (''author'', AuthorV (new_Author V (aparams_id areq) areq)),
                 (''errors'', ErrorsV (snd (author_chains V areq)))]])"
    by (simp add: author_update_post_def Let_def)
next
  assume h: "snd (genre_create_chain (body_name greq)) \<noteq> []"
  show "genre_create_post newid st greq =
        (st, [Render ''genre_form''
                [(''title'', Str ''Create Genre''),
                 (''genre'', GenreV \<lparr>genre_id = newid, genre_name = escape (trim (body_name greq))\<rparr>),
                 (''errors'', ErrorsV (snd (genre_create_chain (body_name greq))))]])"
    using h by (simp add: genre_create_post_def Let_def case_prod_beta fst_genre_create_chain)
next
  assume h: "snd (genre_update_chain (body_name greq)) \<noteq> []"
  show "genre_update_post st greq =
        (st, [Render ''genre_form''
                [(''title'', Str ''Update Genre''),
                 (''genre'', GenreV \<lparr>genre_id = gparams_id greq,
                                     genre_name = escape (trim (body_name greq))\<rparr>),
                 (''errors'', ErrorsV (snd (genre_update_chain (body_name greq))))]])"
    using h by (simp add: genre_update_post_def Let_def case_prod_beta fst_genre_update_chain)
next
  show "new_Author V i areq =
     \<lparr>author_id = i,
      first_name = escape (trim (body_first_name areq)),
      family_name = escape (trim (body_family_name areq)),
      date_of_birth =
        (if body_date_of_birth areq = [] then Raw []
         else Parsed (toDate V (body_date_of_birth areq))),
      date_of_death =
        (if body_date_of_death areq = [] then Raw []
         else Parsed (toDate V (body_date_of_death areq)))\<rparr>"
    by (rule new_Author_eq)
qed

text \<open>An instance for each of the four handlers.\<close>

theorem validation_failure_renders_form_witness:
  "author_create_post sample_validator ''a3'' sample_store
     \<lparr>aparams_id = ''a1'', body_first_name = ''John2!'', body_family_name = '' Doe'',
      body_date_of_birth = ''1920-01-02'', body_date_of_death = ''soon'', body_authorid = []\<rparr> =
     (sample_store,
      [Render ''author_form''
         [(''title'', Str ''Create Author''),
          (''author'', AuthorV \<lparr>author_id = ''a3'', first_name = ''John2!'', family_name = ''Doe'',
             date_of_birth = Parsed (Some (- 1577836800000)), date_of_death = Parsed None\<rparr>),
          (''errors'', ErrorsV
             [\<lparr>path = ''first_name'', msg = ''First name has non-alphanumeric characters''\<rparr>,
              \<lparr>path = ''date_of_death'', msg = ''invalid date of death''\<rparr>])]]) \<and>
   author_update_post sample_validator sample_store
     \<lparr>aparams_id = ''a1'', body_first_name = ''John2!'', body_family_name = '' Doe'',
      body_date_of_birth = ''1920-01-02'', body_date_of_death = ''soon'', body_authorid = []\<rparr> =
     (sample_store,
      [Render ''author_form''
         [(''title'', Str ''Update Author''),
          (''author'', AuthorV \<lparr>author_id = ''a1'', first_name = ''John2!'', family_name = ''Doe'',
             date_of_birth = Parsed (Some (- 1577836800000)), date_of_death = Parsed None\<rparr>),
          (''errors'', ErrorsV
             [\<lparr>path = ''first_name'', msg = ''First name has non-alphanumeric characters''\<rparr>,
              \<lparr>path = ''date_of_death'', msg = ''invalid date of death''\<rparr>])]]) \<and>
   genre_create_post ''g3'' sample_store \<lparr>gparams_id = ''g1'', body_name = '' <> '', body_genreid = []\<rparr> =
     (sample_store,
      [Render ''genre_form''
         [(''title'', Str ''Create Genre''),
          (''genre'', GenreV \<lparr>genre_id = ''g3'', genre_name = ''&lt;&gt;''\<rparr>),
          (''errors'', ErrorsV
             [\<lparr>path = ''name'', msg = ''Genre name must contain at least 3 characters''\<rparr>])]]) \<and>
   genre_update_post sample_store \<lparr>gparams_id = ''g1'', body_name = ''  '', body_genreid = []\<rparr> =
     (sample_store,
      [Render ''genre_form''
         [(''title'', Str ''Update Genre''),
          (''genre'', GenreV \<lparr>genre_id = ''g1'', genre_name = []\<rparr>),
          (''errors'', ErrorsV [\<lparr>path = ''name'', msg = ''Invalid Genre Value''\<rparr>])]])"
proof -
  let ?a = "\<lparr>aparams_id = ''a1'', body_first_name = ''John2!'', body_family_name = '' Doe'',
      body_date_of_birth = ''1920-01-02'', body_date_of_death = ''soon'', body_authorid = []\<rparr>"
  let ?g1 = "\<lparr>gparams_id = ''g1'', body_name = '' <> '', body_genreid = []\<rparr>"
  let ?g2 = "\<lparr>gparams_id = ''g1'', body_name = ''  '', body_genreid = []\<rparr>"
  have ea: "snd (author_chains sample_validator ?a) =
              [\<lparr>path = ''first_name'', msg = ''First name has non-alphanumeric characters''\<rparr>,
               \<lparr>path = ''date_of_death'', msg = ''invalid date of death''\<rparr>]"
    by (simp add: chain_eval sample_validator_def)
  have e1: "snd (genre_create_chain (body_name ?g1)) =
              [\<lparr>path = ''name'', msg = ''Genre name must contain at least 3 characters''\<rparr>]"
    by (simp add: chain_eval)
  have e2: "snd (genre_update_chain (body_name ?g2)) =
              [\<lparr>path = ''name'', msg = ''Invalid Genre Value''\<rparr>]"
    by (simp add: chain_eval)
  have t1: "trim (body_name ?g1) = ''<>''" and t2: "trim (body_name ?g2) = []"
    and t3: "trim (body_first_name ?a) = ''John2!''" and t4: "trim (body_family_name ?a) = ''Doe''"
    by (simp_all add: trim_def is_space_def)
  show ?thesis
    using validation_failure_renders_form
        [where V = sample_validator and areq = ?a and st = sample_store and greq = ?g1
           and newid = "''a3''" and i = "''a3''"]
      validation_failure_renders_form
        [where V = sample_validator and areq = ?a and st = sample_store and greq = ?g1
           and newid = "''g3''" and i = "''a1''"]
      validation_failure_renders_form
        [where V = sample_validator and areq = ?a and st = sample_store and greq = ?g2
           and newid = "''g3''" and i = "''a1''"]
    unfolding ea e1 e2 t1 t2 t3 t4
    by (simp add: escape_def escape_char_def sample_validator_def)
qed

text \<open>
  Claim C8. The chains of \<open>author_create_post\<close> leave no error exactly when
  \<open>first_name\<close> and \<open>family_name\<close> are, after trimming, non-empty and
  alphanumeric, and each date is empty or an ISO-8601 date. A name with a
  non-alphanumeric character after trimming gives the error of its field with the
  message for non-alphanumeric characters, the handler renders the form, and the store
  is unchanged.
\<close>

theorem author_name_validation:
  "(snd (author_chains V req) = [] \<longleftrightarrow>
      (trim (body_first_name req) \<noteq> [] \<and> list_all is_alnum (trim (body_first_name req))) \<and>
      (trim (body_family_name req) \<noteq> [] \<and> list_all is_alnum (trim (body_family_name req))) \<and>
      (body_date_of_birth req = [] \<or> isISO8601 V (body_date_of_birth req)) \<and>
      (body_date_of_death req = [] \<or> isISO8601 V (body_date_of_death req))) \<and>
   (\<not> list_all is_alnum (trim (body_first_name req)) \<longrightarrow>
      \<lparr>path = ''first_name'', msg = ''First name has non-alphanumeric characters''\<rparr>
        \<in> set (snd (author_chains V req))) \<and>
   (\<not> list_all is_alnum (trim (body_family_name req)) \<longrightarrow>
      \<lparr>path = ''family_name'', msg = ''Family name has non-alphanumeric characters.''\<rparr>
        \<in> set (snd (author_chains V req))) \<and>
   (\<not> list_all is_alnum (trim (body_first_name req)) \<or>
    \<not> list_all is_alnum (trim (body_family_name req)) \<longrightarrow>
      author_create_post V newid st req =
        (st, [Render ''author_form''
                [(''title'', Str ''Create Author''), (''author'', AuthorV (new_Author V newid req)),
                 (''errors'', ErrorsV (snd (author_chains V req)))]]))"
proof (intro conjI impI)
  show "snd (author_chains V req) = [] \<longleftrightarrow>
      (trim (body_first_name req) \<noteq> [] \<and> list_all is_alnum (trim (body_first_name req))) \<and>
      (trim (body_family_name req) \<noteq> [] \<and> list_all is_alnum (trim (body_family_name req))) \<and>
      (body_date_of_birth req = [] \<or> isISO8601 V (body_date_of_birth req)) \<and>
      (body_date_of_death req = [] \<or> isISO8601 V (body_date_of_death req))"
    unfolding author_valid_iff isAlphanumeric_def by (rule refl)
next
  assume "\<not> list_all is_alnum (trim (body_first_name req))"
  from name_error_mem [OF this]
  show "\<lparr>path = ''first_name'', msg = ''First name has non-alphanumeric characters''\<rparr>
        \<in> set (snd (author_chains V req))"
    unfolding snd_author_chains set_append by blast
next
  assume "\<not> list_all is_alnum (trim (body_family_name req))"
  from name_error_mem [OF this]
  show "\<lparr>path = ''family_name'', msg = ''Family name has non-alphanumeric characters.''\<rparr>
        \<in> set (snd (author_chains V req))"
    unfolding snd_author_chains set_append by blast
next
  assume "\<not> list_all is_alnum (trim (body_first_name req)) \<or>
    \<not> list_all is_alnum (trim (body_family_name req))"
  then have "snd (author_chains V req) \<noteq> []"
    unfolding author_valid_iff isAlphanumeric_def by blast
  then show "author_create_post V newid st req =
        (st, [Render ''author_form''
                [(''title'', Str ''Create Author''), (''author'', AuthorV (new_Author V newid req)),
                 (''errors'', ErrorsV (snd (author_chains V req)))]])"
    by (simp add: author_create_post_def Let_def)
qed

text \<open>An instance: \<^verbatim>\<open>John2!\<close> and \<^verbatim>\<open>Smith-Jones\<close> are rejected, \<^verbatim>\<open>Mary Shelley\<close> passes.\<close>

theorem author_name_validation_witness:
  "author_create_post sample_validator ''a3'' sample_store
     \<lparr>aparams_id = [], body_first_name = ''John2!'', body_family_name = ''Smith-Jones'',
      body_date_of_birth = [], body_date_of_death = [], body_authorid = []\<rparr> =
     (sample_store,
      [Render ''author_form''
         [(''title'', Str ''Create Author''),
          (''author'', AuthorV \<lparr>author_id = ''a3'', first_name = ''John2!'',
             family_name = ''Smith-Jones'', date_of_birth = Raw [], date_of_death = Raw []\<rparr>),
          (''errors'', ErrorsV
             [\<lparr>path = ''first_name'', msg = ''First name has non-alphanumeric characters''\<rparr>,
              \<lparr>path = ''family_name'', msg = ''Family name has non-alphanumeric characters.''\<rparr>])]]) \<and>
   snd (author_chains sample_validator
     \<lparr>aparams_id = [], body_first_name = '' Mary '', body_family_name = ''Shelley'',
      body_date_of_birth = ''1920-01-02'', body_date_of_death = [], body_authorid = []\<rparr>) = []"
proof -
  let ?a = "\<lparr>aparams_id = [], body_first_name = ''John2!'', body_family_name = ''Smith-Jones'',
      body_date_of_birth = [], body_date_of_death = [], body_authorid = []\<rparr>"
  let ?b = "\<lparr>aparams_id = [], body_first_name = '' Mary '', body_family_name = ''Shelley'',
      body_date_of_birth = ''1920-01-02'', body_date_of_death = [], body_authorid = []\<rparr>"
  have t: "trim (body_first_name ?a) = ''John2!''" "trim (body_family_name ?a) = ''Smith-Jones''"
    "trim (body_first_name ?b) = ''Mary''" "trim (body_family_name ?b) = ''Shelley''"
    by (simp_all add: trim_def is_space_def)
  have h1: "\<not> list_all is_alnum (trim (body_first_name ?a))"
    and h2: "\<not> list_all is_alnum (trim (body_family_name ?a))"
    unfolding t by (simp_all add: is_alnum_def)
  have h3: "(trim (body_first_name ?b) \<noteq> [] \<and> list_all is_alnum (trim (body_first_name ?b))) \<and>
      (trim (body_family_name ?b) \<noteq> [] \<and> list_all is_alnum (trim (body_family_name ?b))) \<and>
      (body_date_of_birth ?b = [] \<or> isISO8601 sample_validator (body_date_of_birth ?b)) \<and>
      (body_date_of_death ?b = [] \<or> isISO8601 sample_validator (body_date_of_death ?b))"
    unfolding t by (simp add: is_alnum_def sample_validator_def)
  have c1: "author_create_post sample_validator ''a3'' sample_store ?a =
        (sample_store, [Render ''author_form''
                [(''title'', Str ''Create Author''),
                 (''author'', AuthorV (new_Author sample_validator ''a3'' ?a)),
                 (''errors'', ErrorsV (snd (author_chains sample_validator ?a)))]])"
    using author_name_validation
        [where V = sample_validator and req = ?a and st = sample_store and newid = "''a3''"] h1
    by blast
  have c2: "\<lparr>path = ''first_name'', msg = ''First name has non-alphanumeric characters''\<rparr>
        \<in> set (snd (author_chains sample_validator ?a)) \<and>
      \<lparr>path = ''family_name'', msg = ''Family name has non-alphanumeric characters.''\<rparr>
        \<in> set (snd (author_chains sample_validator ?a))"
    using author_name_validation
        [where V = sample_validator and req = ?a and st = sample_store and newid = "''a3''"] h1 h2
    by blast
  have c3: "snd (author_chains sample_validator ?b) = []"
    using author_name_validation
        [where V = sample_validator and req = ?b and st = sample_store and newid = "''a3''"] h3
    by blast
  have e: "snd (author_chains sample_validator ?a) =
             [\<lparr>path = ''first_name'', msg = ''First name has non-alphanumeric characters''\<rparr>,
              \<lparr>path = ''family_name'', msg = ''Family name has non-alphanumeric characters.''\<rparr>]"
    by (simp add: chain_eval)
  have n: "new_Author sample_validator ''a3'' ?a =
             \<lparr>author_id = ''a3'', first_name = ''John2!'',
             family_name = ''Smith-Jones'', date_of_birth = Raw [], date_of_death = Raw []\<rparr>"
    by (simp add: chain_eval)
  show ?thesis
    using c1 c2 c3 unfolding e n by simp
qed

text \<open>
  Claim C4 (the code departs from it). The specification has the update workflow reject
  a Genre name of fewer than 3 characters after trimming, as the create workflow does.
  The chain of \<open>genre_update_post\<close> asks for one character only: on the sample
  catalogue the name \<^verbatim>\<open>ab\<close> passes and overwrites the name of the Genre
  \<^verbatim>\<open>g1\<close>.
\<close>

theorem genre_update_accepts_short_name:
  "genre_update_post sample_store \<lparr>gparams_id = ''g1'', body_name = ''ab'', body_genreid = []\<rparr> =
     (sample_store\<lparr>genres :=
        [\<lparr>genre_id = ''g1'', genre_name = ''ab''\<rparr>,
         \<lparr>genre_id = ''g2'', genre_name = ''Poetry''\<rparr>]\<rparr>,
      [Redirect ''/genre/g1''])"
  by (simp add: genre_update_post_def store_eval chain_eval)

text \<open>The create workflow does keep the bound: a Genre it inserts has a name of 3 characters or more.\<close>

lemma genre_create_post_name_length:
  assumes "\<forall>g \<in> set (genres st). 3 \<le> length (genre_name g)"
  shows "\<forall>g \<in> set (genres (fst (genre_create_post newid st req))). 3 \<le> length (genre_name g)"
proof (cases "snd (genre_create_chain (body_name req)) = []")
  case False
  then show ?thesis
    using assms by (simp add: genre_create_post_def Let_def case_prod_beta)
next
  case True
  then have "3 \<le> length (trim (body_name req))"
    by (simp add: snd_genre_create_chain)
  then have "3 \<le> length (escape (trim (body_name req)))"
    using length_escape [of "trim (body_name req)"] by simp
  then show ?thesis
    using assms True
    by (auto simp: genre_create_post_def Let_def case_prod_beta fst_genre_create_chain
        Genre_save_def split: option.splits)
qed

section \<open>Update\<close>

text \<open>
  Claim C7. An update submission that passes validation, for a route identifier that the
  collection holds, redirects to the url of that identifier and replaces the stored
  document by the candidate: the candidate carries the route identifier, a lookup by the
  identifier now gives the candidate, the identifiers of the collection are the same as
  before in the same order, every document with another identifier is unchanged, and so
  are the other collections. The form fields \<open>body_authorid\<close> and
  \<open>body_genreid\<close> play no part. No document is looked up by natural key: the
  statement holds for every store.
\<close>

theorem update_overwrites_in_place:
  "(snd (author_chains V areq) = [] \<and> Author_findById (aparams_id areq) st = Some old \<longrightarrow>
      (let st' = fst (author_update_post V st areq) in
         snd (author_update_post V st areq) = [Redirect (author_url (author_id old))] \<and>
         author_id old = aparams_id areq \<and>
         Author_findById (aparams_id areq) st' = Some (new_Author V (aparams_id areq) areq) \<and>
         author_id (new_Author V (aparams_id areq) areq) = author_id old \<and>
         map author_id (authors st') = map author_id (authors st) \<and>
         filter (\<lambda>a. author_id a \<noteq> aparams_id areq) (authors st') =
           filter (\<lambda>a. author_id a \<noteq> aparams_id areq) (authors st) \<and>
         genres st' = genres st \<and> books st' = books st)) \<and>
   author_update_post V st (areq\<lparr>body_authorid := x\<rparr>) = author_update_post V st areq \<and>
   (snd (genre_update_chain (body_name greq)) = [] \<and>
    Genre_findById (gparams_id greq) st = Some gold \<longrightarrow>
      (let st' = fst (genre_update_post st greq) in
         snd (genre_update_post st greq) = [Redirect (genre_url (genre_id gold))] \<and>
         genre_id gold = gparams_id greq \<and>
         Genre_findById (gparams_id greq) st' =
           Some \<lparr>genre_id = gparams_id greq, genre_name = escape (trim (body_name greq))\<rparr> \<and>
         map genre_id (genres st') = map genre_id (genres st) \<and>
         filter (\<lambda>g. genre_id g \<noteq> gparams_id greq) (genres st') =
           filter (\<lambda>g. genre_id g \<noteq> gparams_id greq) (genres st) \<and>
         authors st' = authors st \<and> books st' = books st)) \<and>
   genre_update_post st (greq\<lparr>body_genreid := y\<rparr>) = genre_update_post st greq"
proof (intro conjI impI)
  assume h: "snd (author_chains V areq) = [] \<and> Author_findById (aparams_id areq) st = Some old"
  let ?n = "new_Author V (aparams_id areq) areq"
  let ?P = "\<lambda>a. author_id a = aparams_id areq"
  have nid: "author_id ?n = aparams_id areq"
    by (simp add: new_Author_eq)
  have f: "find ?P (authors st) = Some old"
    using h by (simp add: Author_findById_def)
  have oid: "author_id old = aparams_id areq"
    using find_Some_mem [OF f] by simp
  have r: "author_update_post V st areq =
             (st\<lparr>authors := update_first ?P ?n (authors st)\<rparr>, [Redirect (author_url (aparams_id areq))])"
    using h nid by (simp add: author_update_post_def Let_def Author_findByIdAndUpdate_def)
  have m: "map author_id (update_first ?P ?n (authors st)) = map author_id (authors st)"
    by (rule map_update_first) (simp add: nid)
  have fl: "filter (\<lambda>a. \<not> ?P a) (update_first ?P ?n (authors st)) = filter (\<lambda>a. \<not> ?P a) (authors st)"
    by (rule filter_update_first) (rule nid)
  have fu: "find ?P (update_first ?P ?n (authors st)) = Some ?n"
    by (rule find_update_first [OF f nid])
  show "let st' = fst (author_update_post V st areq) in
         snd (author_update_post V st areq) = [Redirect (author_url (author_id old))] \<and>
         author_id old = aparams_id areq \<and>
         Author_findById (aparams_id areq) st' = Some (new_Author V (aparams_id areq) areq) \<and>
         author_id (new_Author V (aparams_id areq) areq) = author_id old \<and>
         map author_id (authors st') = map author_id (authors st) \<and>
         filter (\<lambda>a. author_id a \<noteq> aparams_id areq) (authors st') =
           filter (\<lambda>a. author_id a \<noteq> aparams_id areq) (authors st) \<and>
         genres st' = genres st \<and> books st' = books st"
    unfolding Let_def r using oid nid m fl fu by (simp add: Author_findById_def)
next
  have "author_chains V (areq\<lparr>body_authorid := x\<rparr>) = author_chains V areq"
    by (simp add: author_chains_def)
  then show "author_update_post V st (areq\<lparr>body_authorid := x\<rparr>) = author_update_post V st areq"
    by (simp add: author_update_post_def new_Author_def Let_def)
next
  assume h: "snd (genre_update_chain (body_name greq)) = [] \<and>
    Genre_findById (gparams_id greq) st = Some gold"
  let ?n = "\<lparr>genre_id = gparams_id greq, genre_name = escape (trim (body_name greq))\<rparr>"
  let ?P = "\<lambda>g. genre_id g = gparams_id greq"
  have nid: "?P ?n"
    by simp
  have f: "find ?P (genres st) = Some gold"
    using h by (simp add: Genre_findById_def)
  have oid: "genre_id gold = gparams_id greq"
    using find_Some_mem [OF f] by simp
  have r: "genre_update_post st greq =
             (st\<lparr>genres := update_first ?P ?n (genres st)\<rparr>, [Redirect (genre_url (gparams_id greq))])"
    using h oid
    by (simp add: genre_update_post_def Let_def case_prod_beta fst_genre_update_chain
        Genre_findByIdAndUpdate_def)
  have m: "map genre_id (update_first ?P ?n (genres st)) = map genre_id (genres st)"
    by (rule map_update_first) simp
  have fl: "filter (\<lambda>a. \<not> ?P a) (update_first ?P ?n (genres st)) = filter (\<lambda>a. \<not> ?P a) (genres st)"
    by (rule filter_update_first) (rule nid)
  have fu: "find ?P (update_first ?P ?n (genres st)) = Some ?n"
    by (rule find_update_first [OF f nid])
  show "let st' = fst (genre_update_post st greq) in
         snd (genre_update_post st greq) = [Redirect (genre_url (genre_id gold))] \<and>
         genre_id gold = gparams_id greq \<and>
         Genre_findById (gparams_id greq) st' =
           Some \<lparr>genre_id = gparams_id greq, genre_name = escape (trim (body_name greq))\<rparr> \<and>
         map genre_id (genres st') = map genre_id (genres st) \<and>
         filter (\<lambda>g. genre_id g \<noteq> gparams_id greq) (genres st') =
           filter (\<lambda>g. genre_id g \<noteq> gparams_id greq) (genres st) \<and>
         authors st' = authors st \<and> books st' = books st"
    unfolding Let_def r using oid m fl fu by (simp add: Genre_findById_def)
next
  show "genre_update_post st (greq\<lparr>body_genreid := y\<rparr>) = genre_update_post st greq"
    by (simp add: genre_update_post_def Let_def case_prod_beta)
qed

text \<open>
  An instance: the updates give \<^verbatim>\<open>a1\<close> the names of \<^verbatim>\<open>a2\<close> and
  \<^verbatim>\<open>g1\<close> the name of \<^verbatim>\<open>g2\<close>, and are written all the same.
\<close>

theorem update_overwrites_in_place_witness:
  "author_update_post sample_validator sample_store
     \<lparr>aparams_id = ''a1'', body_first_name = ''Isaac'', body_family_name = ''Asimov '',
      body_date_of_birth = ''1920-01-02'', body_date_of_death = [], body_authorid = ''a2''\<rparr> =
     (sample_store\<lparr>authors :=
        [\<lparr>author_id = ''a1'', first_name = ''Isaac'', family_name = ''Asimov'',
          date_of_birth = Parsed (Some (- 1577836800000)), date_of_death = Raw []\<rparr>,
         \<lparr>author_id = ''a2'', first_name = ''Isaac'', family_name = ''Asimov'',
          date_of_birth = Parsed (Some (- 1577836800000)), date_of_death = Raw []\<rparr>]\<rparr>,
      [Redirect ''/author/a1'']) \<and>
   genre_update_post sample_store
     \<lparr>gparams_id = ''g1'', body_name = ''Poetry'', body_genreid = ''g2''\<rparr> =
     (sample_store\<lparr>genres :=
        [\<lparr>genre_id = ''g1'', genre_name = ''Poetry''\<rparr>,
         \<lparr>genre_id = ''g2'', genre_name = ''Poetry''\<rparr>]\<rparr>,
      [Redirect ''/genre/g1''])"
proof -
  let ?a = "\<lparr>aparams_id = ''a1'', body_first_name = ''Isaac'', body_family_name = ''Asimov '',
      body_date_of_birth = ''1920-01-02'', body_date_of_death = [], body_authorid = ''a2''\<rparr>"
  let ?g = "\<lparr>gparams_id = ''g1'', body_name = ''Poetry'', body_genreid = ''g2''\<rparr>"
  let ?old = "\<lparr>author_id = ''a1'', first_name = ''Jane'', family_name = ''Austen'',
          date_of_birth = Raw [], date_of_death = Raw []\<rparr>"
  let ?gold = "\<lparr>genre_id = ''g1'', genre_name = ''Fiction''\<rparr>"
  have h1: "snd (author_chains sample_validator ?a) = [] \<and>
            Author_findById (aparams_id ?a) sample_store = Some ?old"
    by (simp add: chain_eval store_eval)
  have h2: "snd (genre_update_chain (body_name ?g)) = [] \<and>
            Genre_findById (gparams_id ?g) sample_store = Some ?gold"
    by (simp add: chain_eval store_eval)
  have c1: "snd (author_update_post sample_validator sample_store ?a) =
              [Redirect (author_url (author_id ?old))] \<and>
            map author_id (authors (fst (author_update_post sample_validator sample_store ?a))) =
              map author_id (authors sample_store)"
    using update_overwrites_in_place
        [where V = sample_validator and st = sample_store and areq = ?a and greq = ?g
           and old = ?old and gold = ?gold] h1
    unfolding Let_def by blast
  have c2: "snd (genre_update_post sample_store ?g) = [Redirect (genre_url (genre_id ?gold))] \<and>
            map genre_id (genres (fst (genre_update_post sample_store ?g))) =
              map genre_id (genres sample_store)"
    using update_overwrites_in_place
        [where V = sample_validator and st = sample_store and areq = ?a and greq = ?g
           and old = ?old and gold = ?gold] h2
    unfolding Let_def by blast
  have e1: "fst (author_update_post sample_validator sample_store ?a) =
     sample_store\<lparr>authors :=
        [\<lparr>author_id = ''a1'', first_name = ''Isaac'', family_name = ''Asimov'',
          date_of_birth = Parsed (Some (- 1577836800000)), date_of_death = Raw []\<rparr>,
         \<lparr>author_id = ''a2'', first_name = ''Isaac'', family_name = ''Asimov'',
          date_of_birth = Parsed (Some (- 1577836800000)), date_of_death = Raw []\<rparr>]\<rparr>"
    by (simp add: author_update_post_def chain_eval store_eval)
  have e2: "fst (genre_update_post sample_store ?g) =
     sample_store\<lparr>genres :=
        [\<lparr>genre_id = ''g1'', genre_name = ''Poetry''\<rparr>,
         \<lparr>genre_id = ''g2'', genre_name = ''Poetry''\<rparr>]\<rparr>"
    by (simp add: genre_update_post_def chain_eval store_eval)
  show ?thesis
    using c1 c2 e1 e2 by (simp add: prod_eq_iff author_url_def genre_url_def)
qed

text \<open>
  Claim C9. When the submission of \<open>genre_update_post\<close> passes validation and no
  Genre has the route identifier, the update returns null, reading its
  \<^verbatim>\<open>url\<close> throws a TypeError that leaves the handler, and the store is
  unchanged: there is no redirect and no 404. \<open>author_update_post\<close> in the same
  situation redirects to the url of the candidate it built.
\<close>

theorem genre_update_absent_throws:
  "(snd (genre_update_chain (body_name req)) = [] \<and> Genre_findById (gparams_id req) st = None \<longrightarrow>
      genre_update_post st req = (st, [Throw TypeError])) \<and>
   (snd (author_chains V areq) = [] \<and> Author_findById (aparams_id areq) st = None \<longrightarrow>
      author_update_post V st areq = (st, [Redirect (author_url (aparams_id areq))]))"
proof (intro conjI impI)
  assume h: "snd (genre_update_chain (body_name req)) = [] \<and> Genre_findById (gparams_id req) st = None"
  then have f: "find (\<lambda>g. genre_id g = gparams_id req) (genres st) = None"
    by (simp add: Genre_findById_def)
  show "genre_update_post st req = (st, [Throw TypeError])"
    using h f
    by (simp add: genre_update_post_def Let_def case_prod_beta Genre_findByIdAndUpdate_def
        update_first_absent)
next
  assume h: "snd (author_chains V areq) = [] \<and> Author_findById (aparams_id areq) st = None"
  then have f: "find (\<lambda>a. author_id a = aparams_id areq) (authors st) = None"
    by (simp add: Author_findById_def)
  show "author_update_post V st areq = (st, [Redirect (author_url (aparams_id areq))])"
    using h f
    by (simp add: author_update_post_def Let_def Author_findByIdAndUpdate_def update_first_absent
        new_Author_eq)
qed

text \<open>An instance: the identifiers \<^verbatim>\<open>g9\<close> and \<^verbatim>\<open>a9\<close> are not in the sample catalogue.\<close>

theorem genre_update_absent_throws_witness:
  "genre_update_post sample_store \<lparr>gparams_id = ''g9'', body_name = ''Drama'', body_genreid = []\<rparr> =
     (sample_store, [Throw TypeError]) \<and>
   author_update_post sample_validator sample_store
     \<lparr>aparams_id = ''a9'', body_first_name = ''Mary'', body_family_name = ''Shelley'',
      body_date_of_birth = [], body_date_of_death = [], body_authorid = []\<rparr> =
     (sample_store, [Redirect ''/author/a9''])"
proof -
  let ?g = "\<lparr>gparams_id = ''g9'', body_name = ''Drama'', body_genreid = []\<rparr>"
  let ?a = "\<lparr>aparams_id = ''a9'', body_first_name = ''Mary'', body_family_name = ''Shelley'',
      body_date_of_birth = [], body_date_of_death = [], body_authorid = []\<rparr>"
  have h1: "snd (genre_update_chain (body_name ?g)) = [] \<and>
            Genre_findById (gparams_id ?g) sample_store = None"
    by (simp add: chain_eval store_eval)
  have h2: "snd (author_chains sample_validator ?a) = [] \<and>
            Author_findById (aparams_id ?a) sample_store = None"
    by (simp add: chain_eval store_eval)
  show ?thesis
    using genre_update_absent_throws [of ?g sample_store sample_validator ?a] h1 h2
    by (simp add: author_url_def)
qed

section \<open>Delete\<close>

text \<open>
  Claim C2 (the code departs from it). The specification has no Author or Genre deleted
  while a Book references it. The delete handlers test the Books of the route identifier
  and delete the document of the form field: on the sample catalogue, a request for the
  route \<^verbatim>\<open>a2\<close> (no Books) with the form field \<^verbatim>\<open>a1\<close> deletes the Author
  \<^verbatim>\<open>a1\<close>, which the Book \<^verbatim>\<open>b1\<close> still references, and a request for
  the route \<^verbatim>\<open>g2\<close> with the form field \<^verbatim>\<open>g1\<close> deletes the Genre
  \<^verbatim>\<open>g1\<close>.
\<close>

theorem delete_post_removes_referenced_document:
  "author_delete_post sample_store
     \<lparr>aparams_id = ''a2'', body_first_name = [], body_family_name = [],
      body_date_of_birth = [], body_date_of_death = [], body_authorid = ''a1''\<rparr> =
     (sample_store\<lparr>authors :=
        [\<lparr>author_id = ''a2'', first_name = ''Isaac'', family_name = ''Asimov'',
          date_of_birth = Parsed (Some (- 1577836800000)), date_of_death = Raw []\<rparr>]\<rparr>,
      [Redirect ''/catalog/authors'']) \<and>
   genre_delete_post sample_store
     \<lparr>gparams_id = ''g2'', body_name = [], body_genreid = ''g1''\<rparr> =
     (sample_store\<lparr>genres := [\<lparr>genre_id = ''g2'', genre_name = ''Poetry''\<rparr>]\<rparr>,
      [Redirect ''/catalog/genres'']) \<and>
   map book_author (books sample_store) = [''a1''] \<and>
   map book_genre (books sample_store) = [''g1'']"
  by (simp add: author_delete_post_def genre_delete_post_def store_eval)

text \<open>
  Claim C3. In \<open>author_delete_post\<close> and \<open>genre_delete_post\<close> the guard is the
  list of Books that reference the route identifier: if there is one, the handler renders
  the confirmation view with them and the store is unchanged. If there is none, the
  handler redirects to the list and removes the first document whose identifier is the
  form field (\<open>body_authorid\<close>, \<open>body_genreid\<close>), if there is one; the other
  collections are unchanged. With distinct identifiers in the collection, what is left is
  every document with another identifier than the form field. When the two identifiers
  differ, Books that reference the document to delete have no effect: adding any number
  of them to the store changes neither the response nor the documents left.
\<close>

theorem delete_guard_reads_route_id:
  "((\<exists>b \<in> set (books st). book_author b = aparams_id areq) \<longrightarrow>
      author_delete_post st areq =
        (st, [Render ''author_delete''
                [(''title'', Str ''Delete Author''),
                 (''author'', author_local (Author_findById (aparams_id areq) st)),
                 (''author_books'',
                  BooksV (map (project [''title'', ''summary''])
                            (filter (\<lambda>b. book_author b = aparams_id areq) (books st))))]])) \<and>
   (\<not> (\<exists>b \<in> set (books st). book_author b = aparams_id areq) \<longrightarrow>
      snd (author_delete_post st areq) = [Redirect ''/catalog/authors''] \<and>
      genres (fst (author_delete_post st areq)) = genres st \<and>
      books (fst (author_delete_post st areq)) = books st \<and>
      (case Author_findById (body_authorid areq) st of
         None \<Rightarrow> authors (fst (author_delete_post st areq)) = authors st
       | Some x \<Rightarrow>
           \<exists>ys zs. authors st = ys @ x # zs \<and> author_id x = body_authorid areq \<and>
             (\<forall>y \<in> set ys. author_id y \<noteq> body_authorid areq) \<and>
             authors (fst (author_delete_post st areq)) = ys @ zs)) \<and>
   (\<not> (\<exists>b \<in> set (books st). book_author b = aparams_id areq) \<and>
    distinct (map author_id (authors st)) \<longrightarrow>
      authors (fst (author_delete_post st areq)) =
        filter (\<lambda>a. author_id a \<noteq> body_authorid areq) (authors st)) \<and>
   ((\<exists>b \<in> set (books st). book_genre b = gparams_id greq) \<longrightarrow>
      genre_delete_post st greq =
        (st, [Render ''genre_delete''
                [(''title'', Str ''Delete Genre''),
                 (''genre'', genre_local (Genre_findById (gparams_id greq) st)),
                 (''genre_books'',
                  BooksV (map (project [''title'', ''sumarry''])
                            (filter (\<lambda>b. book_genre b = gparams_id greq) (books st))))]])) \<and>
   (\<not> (\<exists>b \<in> set (books st). book_genre b = gparams_id greq) \<longrightarrow>
      snd (genre_delete_post st greq) = [Redirect ''/catalog/genres''] \<and>
      authors (fst (genre_delete_post st greq)) = authors st \<and>
      books (fst (genre_delete_post st greq)) = books st \<and>
      (case Genre_findById (body_genreid greq) st of
         None \<Rightarrow> genres (fst (genre_delete_post st greq)) = genres st
       | Some x \<Rightarrow>
           \<exists>ys zs. genres st = ys @ x # zs \<and> genre_id x = body_genreid greq \<and>
             (\<forall>y \<in> set ys. genre_id y \<noteq> body_genreid greq) \<and>
             genres (fst (genre_delete_post st greq)) = ys @ zs)) \<and>
   (\<not> (\<exists>b \<in> set (books st). book_genre b = gparams_id greq) \<and>
    distinct (map genre_id (genres st)) \<longrightarrow>
      genres (fst (genre_delete_post st greq)) =
        filter (\<lambda>g. genre_id g \<noteq> body_genreid greq) (genres st)) \<and>
   (aparams_id areq \<noteq> body_authorid areq \<and> (\<forall>b \<in> set bs. book_author b = body_authorid areq) \<longrightarrow>
      snd (author_delete_post (st\<lparr>books := books st @ bs\<rparr>) areq) = snd (author_delete_post st areq) \<and>
      authors (fst (author_delete_post (st\<lparr>books := books st @ bs\<rparr>) areq)) =
        authors (fst (author_delete_post st areq))) \<and>
   (gparams_id greq \<noteq> body_genreid greq \<and> (\<forall>b \<in> set bs. book_genre b = body_genreid greq) \<longrightarrow>
      snd (genre_delete_post (st\<lparr>books := books st @ bs\<rparr>) greq) = snd (genre_delete_post st greq) \<and>
      genres (fst (genre_delete_post (st\<lparr>books := books st @ bs\<rparr>) greq)) =
        genres (fst (genre_delete_post st greq)))"
proof -
  let ?ba = "\<exists>b \<in> set (books st). book_author b = aparams_id areq"
  let ?bg = "\<exists>b \<in> set (books st). book_genre b = gparams_id greq"
  let ?Pa = "\<lambda>a. author_id a = body_authorid areq"
  let ?Pg = "\<lambda>g. genre_id g = body_genreid greq"
  have ra: "author_delete_post st areq =
     (if ?ba then
        (st, [Render ''author_delete''
                [(''title'', Str ''Delete Author''),
                 (''author'', author_local (Author_findById (aparams_id areq) st)),
                 (''author_books'',
                  BooksV (map (project [''title'', ''summary''])
                            (filter (\<lambda>b. book_author b = aparams_id areq) (books st))))]])
      else (st\<lparr>authors := delete_first ?Pa (authors st)\<rparr>, [Redirect ''/catalog/authors'']))"
    by (simp add: author_delete_post_def Let_def Book_find_def Author_findByIdAndDelete_def
        filter_empty_conv)
  have rg: "genre_delete_post st greq =
     (if ?bg then
        (st, [Render ''genre_delete''
                [(''title'', Str ''Delete Genre''),
                 (''genre'', genre_local (Genre_findById (gparams_id greq) st)),
                 (''genre_books'',
                  BooksV (map (project [''title'', ''sumarry''])
                            (filter (\<lambda>b. book_genre b = gparams_id greq) (books st))))]])
      else (st\<lparr>genres := delete_first ?Pg (genres st)\<rparr>, [Redirect ''/catalog/genres'']))"
    by (simp add: genre_delete_post_def Let_def Book_find_def Genre_findByIdAndDelete_def
        filter_empty_conv)
  have sa: "case find ?Pa (authors st) of
         None \<Rightarrow> delete_first ?Pa (authors st) = authors st
       | Some x \<Rightarrow>
           \<exists>ys zs. authors st = ys @ x # zs \<and> author_id x = body_authorid areq \<and>
             (\<forall>y \<in> set ys. author_id y \<noteq> body_authorid areq) \<and>
             delete_first ?Pa (authors st) = ys @ zs"
  proof (cases "find ?Pa (authors st)")
    case None
    then show ?thesis by (simp add: delete_first_absent)
  next
    case (Some x)
    from delete_first_split [OF Some] find_Some_mem [OF Some] Some
    show ?thesis by auto
  qed
  have sg: "case find ?Pg (genres st) of
         None \<Rightarrow> delete_first ?Pg (genres st) = genres st
       | Some x \<Rightarrow>
           \<exists>ys zs. genres st = ys @ x # zs \<and> genre_id x = body_genreid greq \<and>
             (\<forall>y \<in> set ys. genre_id y \<noteq> body_genreid greq) \<and>
             delete_first ?Pg (genres st) = ys @ zs"
  proof (cases "find ?Pg (genres st)")
    case None
    then show ?thesis by (simp add: delete_first_absent)
  next
    case (Some x)
    from delete_first_split [OF Some] find_Some_mem [OF Some] Some
    show ?thesis by auto
  qed
  have c1: "?ba \<longrightarrow> author_delete_post st areq =
        (st, [Render ''author_delete''
                [(''title'', Str ''Delete Author''),
                 (''author'', author_local (Author_findById (aparams_id areq) st)),
                 (''author_books'',
                  BooksV (map (project [''title'', ''summary''])
                            (filter (\<lambda>b. book_author b = aparams_id areq) (books st))))]])"
    unfolding ra by simp
  have c2: "\<not> ?ba \<longrightarrow>
      snd (author_delete_post st areq) = [Redirect ''/catalog/authors''] \<and>
      genres (fst (author_delete_post st areq)) = genres st \<and>
      books (fst (author_delete_post st areq)) = books st \<and>
      (case Author_findById (body_authorid areq) st of
         None \<Rightarrow> authors (fst (author_delete_post st areq)) = authors st
       | Some x \<Rightarrow>
           \<exists>ys zs. authors st = ys @ x # zs \<and> author_id x = body_authorid areq \<and>
             (\<forall>y \<in> set ys. author_id y \<noteq> body_authorid areq) \<and>
             authors (fst (author_delete_post st areq)) = ys @ zs)"
  proof
    assume "\<not> ?ba"
    then have r: "author_delete_post st areq =
        (st\<lparr>authors := delete_first ?Pa (authors st)\<rparr>, [Redirect ''/catalog/authors''])"
      unfolding ra by simp
    show "snd (author_delete_post st areq) = [Redirect ''/catalog/authors''] \<and>
      genres (fst (author_delete_post st areq)) = genres st \<and>
      books (fst (author_delete_post st areq)) = books st \<and>
      (case Author_findById (body_authorid areq) st of
         None \<Rightarrow> authors (fst (author_delete_post st areq)) = authors st
       | Some x \<Rightarrow>
           \<exists>ys zs. authors st = ys @ x # zs \<and> author_id x = body_authorid areq \<and>
             (\<forall>y \<in> set ys. author_id y \<noteq> body_authorid areq) \<and>
             authors (fst (author_delete_post st areq)) = ys @ zs)"
      using sa unfolding r Author_findById_def by (simp split: option.splits)
  qed
  have c3: "\<not> ?ba \<and> distinct (map author_id (authors st)) \<longrightarrow>
      authors (fst (author_delete_post st areq)) =
        filter (\<lambda>a. author_id a \<noteq> body_authorid areq) (authors st)"
    unfolding ra by (simp add: delete_first_distinct)
  have c4: "?bg \<longrightarrow> genre_delete_post st greq =
        (st, [Render ''genre_delete''
                [(''title'', Str ''Delete Genre''),
                 (''genre'', genre_local (Genre_findById (gparams_id greq) st)),
                 (''genre_books'',
                  BooksV (map (project [''title'', ''sumarry''])
                            (filter (\<lambda>b. book_genre b = gparams_id greq) (books st))))]])"
    unfolding rg by simp
  have c5: "\<not> ?bg \<longrightarrow>
      snd (genre_delete_post st greq) = [Redirect ''/catalog/genres''] \<and>
      authors (fst (genre_delete_post st greq)) = authors st \<and>
      books (fst (genre_delete_post st greq)) = books st \<and>
      (case Genre_findById (body_genreid greq) st of
         None \<Rightarrow> genres (fst (genre_delete_post st greq)) = genres st
       | Some x \<Rightarrow>
           \<exists>ys zs. genres st = ys @ x # zs \<and> genre_id x = body_genreid greq \<and>
             (\<forall>y \<in> set ys. genre_id y \<noteq> body_genreid greq) \<and>
             genres (fst (genre_delete_post st greq)) = ys @ zs)"
  proof
    assume "\<not> ?bg"
    then have r: "genre_delete_post st greq =
        (st\<lparr>genres := delete_first ?Pg (genres st)\<rparr>, [Redirect ''/catalog/genres''])"
      unfolding rg by simp
    show "snd (genre_delete_post st greq) = [Redirect ''/catalog/genres''] \<and>
      authors (fst (genre_delete_post st greq)) = authors st \<and>
      books (fst (genre_delete_post st greq)) = books st \<and>
      (case Genre_findById (body_genreid greq) st of
         None \<Rightarrow> genres (fst (genre_delete_post st greq)) = genres st
       | Some x \<Rightarrow>
           \<exists>ys zs. genres st = ys @ x # zs \<and> genre_id x = body_genreid greq \<and>
             (\<forall>y \<in> set ys. genre_id y \<noteq> body_genreid greq) \<and>
             genres (fst (genre_delete_post st greq)) = ys @ zs)"
      using sg unfolding r Genre_findById_def by (simp split: option.splits)
  qed
  have c6: "\<not> ?bg \<and> distinct (map genre_id (genres st)) \<longrightarrow>
      genres (fst (genre_delete_post st greq)) =
        filter (\<lambda>g. genre_id g \<noteq> body_genreid greq) (genres st)"
    unfolding rg by (simp add: delete_first_distinct)
  have c7: "aparams_id areq \<noteq> body_authorid areq \<and> (\<forall>b \<in> set bs. book_author b = body_authorid areq) \<longrightarrow>
      snd (author_delete_post (st\<lparr>books := books st @ bs\<rparr>) areq) = snd (author_delete_post st areq) \<and>
      authors (fst (author_delete_post (st\<lparr>books := books st @ bs\<rparr>) areq)) =
        authors (fst (author_delete_post st areq))"
  proof
    assume h: "aparams_id areq \<noteq> body_authorid areq \<and> (\<forall>b \<in> set bs. book_author b = body_authorid areq)"
    then have "filter (\<lambda>b. book_author b = aparams_id areq) bs = []"
      by (auto simp: filter_empty_conv)
    then have "Book_find (\<lambda>b. book_author b = aparams_id areq) [''title'', ''summary'']
                 (st\<lparr>books := books st @ bs\<rparr>) =
               Book_find (\<lambda>b. book_author b = aparams_id areq) [''title'', ''summary''] st"
      by (simp add: Book_find_def)
    then show "snd (author_delete_post (st\<lparr>books := books st @ bs\<rparr>) areq) = snd (author_delete_post st areq) \<and>
      authors (fst (author_delete_post (st\<lparr>books := books st @ bs\<rparr>) areq)) =
        authors (fst (author_delete_post st areq))"
      by (simp add: author_delete_post_def Let_def Author_findById_def Author_findByIdAndDelete_def)
  qed
  have c8: "gparams_id greq \<noteq> body_genreid greq \<and> (\<forall>b \<in> set bs. book_genre b = body_genreid greq) \<longrightarrow>
      snd (genre_delete_post (st\<lparr>books := books st @ bs\<rparr>) greq) = snd (genre_delete_post st greq) \<and>
      genres (fst (genre_delete_post (st\<lparr>books := books st @ bs\<rparr>) greq)) =
        genres (fst (genre_delete_post st greq))"
  proof
    assume h: "gparams_id greq \<noteq> body_genreid greq \<and> (\<forall>b \<in> set bs. book_genre b = body_genreid greq)"
    then have "filter (\<lambda>b. book_genre b = gparams_id greq) bs = []"
      by (auto simp: filter_empty_conv)
    then have "Book_find (\<lambda>b. book_genre b = gparams_id greq) [''title'', ''sumarry'']
                 (st\<lparr>books := books st @ bs\<rparr>) =
               Book_find (\<lambda>b. book_genre b = gparams_id greq) [''title'', ''sumarry''] st"
      by (simp add: Book_find_def)
    then show "snd (genre_delete_post (st\<lparr>books := books st @ bs\<rparr>) greq) = snd (genre_delete_post st greq) \<and>
      genres (fst (genre_delete_post (st\<lparr>books := books st @ bs\<rparr>) greq)) =
        genres (fst (genre_delete_post st greq))"
      by (simp add: genre_delete_post_def Let_def Genre_findById_def Genre_findByIdAndDelete_def)
  qed
  from c1 c2 c3 c4 c5 c6 c7 c8 show ?thesis
    by (intro conjI)
qed

text \<open>
  An instance on the wider catalogue: the route \<^verbatim>\<open>a3\<close> has no Books, the form
  field names \<^verbatim>\<open>a2\<close>, the second of three Authors, which the Book \<^verbatim>\<open>b2\<close>
  references; \<^verbatim>\<open>a2\<close> is removed and \<^verbatim>\<open>b2\<close> stays, also with one more
  Book of \<^verbatim>\<open>a2\<close> in the store. The route \<^verbatim>\<open>a1\<close> has a Book and nothing is
  deleted. The same for the Genres.
\<close>

theorem delete_guard_reads_route_id_witness:
  "snd (author_delete_post wider_store
          \<lparr>aparams_id = ''a3'', body_first_name = [], body_family_name = [],
           body_date_of_birth = [], body_date_of_death = [], body_authorid = ''a2''\<rparr>) =
     [Redirect ''/catalog/authors''] \<and>
   map author_id (authors (fst (author_delete_post wider_store
          \<lparr>aparams_id = ''a3'', body_first_name = [], body_family_name = [],
           body_date_of_birth = [], body_date_of_death = [], body_authorid = ''a2''\<rparr>))) =
     [''a1'', ''a3''] \<and>
   map book_author (books (fst (author_delete_post wider_store
          \<lparr>aparams_id = ''a3'', body_first_name = [], body_family_name = [],
           body_date_of_birth = [], body_date_of_death = [], body_authorid = ''a2''\<rparr>))) =
     [''a1'', ''a2''] \<and>
   map author_id (authors (fst (author_delete_post
          (wider_store\<lparr>books := books wider_store @
             [\<lparr>book_id = ''b3'', book_title = ''Nightfall'', book_summary = ''A story'',
               book_author = ''a2'', book_genre = ''g2''\<rparr>]\<rparr>)
          \<lparr>aparams_id = ''a3'', body_first_name = [], body_family_name = [],
           body_date_of_birth = [], body_date_of_death = [], body_authorid = ''a2''\<rparr>))) =
     [''a1'', ''a3''] \<and>
   fst (author_delete_post wider_store
          \<lparr>aparams_id = ''a1'', body_first_name = [], body_family_name = [],
           body_date_of_birth = [], body_date_of_death = [], body_authorid = ''a2''\<rparr>) =
     wider_store \<and>
   snd (genre_delete_post wider_store
          \<lparr>gparams_id = ''g3'', body_name = [], body_genreid = ''g2''\<rparr>) =
     [Redirect ''/catalog/genres''] \<and>
   map genre_id (genres (fst (genre_delete_post wider_store
          \<lparr>gparams_id = ''g3'', body_name = [], body_genreid = ''g2''\<rparr>))) =
     [''g1'', ''g3''] \<and>
   map book_genre (books (fst (genre_delete_post wider_store
          \<lparr>gparams_id = ''g3'', body_name = [], body_genreid = ''g2''\<rparr>))) =
     [''g1'', ''g2''] \<and>
   map genre_id (genres (fst (genre_delete_post
          (wider_store\<lparr>books := books wider_store @
             [\<lparr>book_id = ''b3'', book_title = ''Nightfall'', book_summary = ''A story'',
               book_author = ''a2'', book_genre = ''g2''\<rparr>]\<rparr>)
          \<lparr>gparams_id = ''g3'', body_name = [], body_genreid = ''g2''\<rparr>))) =
     [''g1'', ''g3''] \<and>
   fst (genre_delete_post wider_store
          \<lparr>gparams_id = ''g1'', body_name = [], body_genreid = ''g2''\<rparr>) =
     wider_store"
proof -
  let ?bs = "[\<lparr>book_id = ''b3'', book_title = ''Nightfall'', book_summary = ''A story'',
               book_author = ''a2'', book_genre = ''g2''\<rparr>]"
  let ?a = "\<lparr>aparams_id = ''a3'', body_first_name = [], body_family_name = [],
           body_date_of_birth = [], body_date_of_death = [], body_authorid = ''a2''\<rparr>"
  let ?a' = "\<lparr>aparams_id = ''a1'', body_first_name = [], body_family_name = [],
           body_date_of_birth = [], body_date_of_death = [], body_authorid = ''a2''\<rparr>"
  let ?g = "\<lparr>gparams_id = ''g3'', body_name = [], body_genreid = ''g2''\<rparr>"
  let ?g' = "\<lparr>gparams_id = ''g1'', body_name = [], body_genreid = ''g2''\<rparr>"
  note t = delete_guard_reads_route_id
      [where st = wider_store and areq = ?a and greq = ?g and bs = ?bs]
  note t' = delete_guard_reads_route_id
      [where st = wider_store and areq = ?a' and greq = ?g' and bs = ?bs]
  have na: "\<not> (\<exists>b \<in> set (books wider_store). book_author b = aparams_id ?a)"
    and ng: "\<not> (\<exists>b \<in> set (books wider_store). book_genre b = gparams_id ?g)"
    and ba: "\<exists>b \<in> set (books wider_store). book_author b = aparams_id ?a'"
    and bg: "\<exists>b \<in> set (books wider_store). book_genre b = gparams_id ?g'"
    by (simp_all add: wider_store_def)
  have da: "distinct (map author_id (authors wider_store))"
    and dg: "distinct (map genre_id (genres wider_store))"
    by (simp_all add: wider_store_def)
  have h7: "aparams_id ?a \<noteq> body_authorid ?a \<and> (\<forall>b \<in> set ?bs. book_author b = body_authorid ?a)"
    and h8: "gparams_id ?g \<noteq> body_genreid ?g \<and> (\<forall>b \<in> set ?bs. book_genre b = body_genreid ?g)"
    by simp_all
  have a1: "snd (author_delete_post wider_store ?a) = [Redirect ''/catalog/authors'']"
    and a2: "books (fst (author_delete_post wider_store ?a)) = books wider_store"
    using t na by blast+
  have a3: "authors (fst (author_delete_post wider_store ?a)) =
              filter (\<lambda>a. author_id a \<noteq> body_authorid ?a) (authors wider_store)"
    using t na da by blast
  have a4: "authors (fst (author_delete_post (wider_store\<lparr>books := books wider_store @ ?bs\<rparr>) ?a)) =
              authors (fst (author_delete_post wider_store ?a))"
    using t h7 by blast
  have a5: "author_delete_post wider_store ?a' =
        (wider_store, [Render ''author_delete''
                [(''title'', Str ''Delete Author''),
                 (''author'', author_local (Author_findById (aparams_id ?a') wider_store)),
                 (''author_books'',
                  BooksV (map (project [''title'', ''summary''])
                            (filter (\<lambda>b. book_author b = aparams_id ?a') (books wider_store))))]])"
    using t' ba by blast
  have g1: "snd (genre_delete_post wider_store ?g) = [Redirect ''/catalog/genres'']"
    and g2: "books (fst (genre_delete_post wider_store ?g)) = books wider_store"
    using t ng by blast+
  have g3: "genres (fst (genre_delete_post wider_store ?g)) =
              filter (\<lambda>x. genre_id x \<noteq> body_genreid ?g) (genres wider_store)"
    using t ng dg by blast
  have g4: "genres (fst (genre_delete_post (wider_store\<lparr>books := books wider_store @ ?bs\<rparr>) ?g)) =
              genres (fst (genre_delete_post wider_store ?g))"
    using t h8 by blast
  have g5: "genre_delete_post wider_store ?g' =
        (wider_store, [Render ''genre_delete''
                [(''title'', Str ''Delete Genre''),
                 (''genre'', genre_local (Genre_findById (gparams_id ?g') wider_store)),
                 (''genre_books'',
                  BooksV (map (project [''title'', ''sumarry''])
                            (filter (\<lambda>b. book_genre b = gparams_id ?g') (books wider_store))))]])"
    using t' bg by blast
  have e: "map author_id (filter (\<lambda>a. author_id a \<noteq> ''a2'') (authors wider_store)) = [''a1'', ''a3'']"
    "map genre_id (filter (\<lambda>x. genre_id x \<noteq> ''g2'') (genres wider_store)) = [''g1'', ''g3'']"
    "map book_author (books wider_store) = [''a1'', ''a2'']"
    "map book_genre (books wider_store) = [''g1'', ''g2'']"
    by (simp_all add: wider_store_def)
  show ?thesis
    unfolding a1 a2 a4 a3 a5 g1 g2 g4 g3 g5 using e by simp
qed

section \<open>Absent entities\<close>

text \<open>
  Claim C5 (the code departs from it). The specification has \<open>genre_update_get\<close>,
  \<open>genre_delete_get\<close> and \<open>author_delete_get\<close> answer an absent entity with a
  redirect to the list view and render nothing. For an identifier that the sample
  catalogue does not hold, each of the three calls \<^verbatim>\<open>res.redirect\<close> and then
  \<^verbatim>\<open>res.render\<close> with a null entity, and \<open>genre_delete_get\<close> redirects to
  \<^verbatim>\<open>/catalog/genre\<close>, not to the list at \<^verbatim>\<open>/catalog/genres\<close>.
\<close>

theorem absent_entity_redirect_then_render:
  "genre_update_get sample_store \<lparr>gparams_id = ''g9'', body_name = [], body_genreid = []\<rparr> =
     [Redirect ''/catalog/genres'',
      Render ''genre_form'' [(''title'', Str ''Update Genre''), (''genre'', Null)]] \<and>
   genre_delete_get sample_store \<lparr>gparams_id = ''g9'', body_name = [], body_genreid = []\<rparr> =
     [Redirect ''/catalog/genre'',
      Render ''genre_delete''
        [(''title'', Str ''Delete Genre''), (''genre'', Null), (''genre_books'', BooksV [])]] \<and>
   author_delete_get sample_store
     \<lparr>aparams_id = ''a9'', body_first_name = [], body_family_name = [],
      body_date_of_birth = [], body_date_of_death = [], body_authorid = []\<rparr> =
     [Redirect ''/catalog/authors'',
      Render ''author_delete''
        [(''title'', Str ''Delete Author''), (''author'', Null), (''author_books'', BooksV [])]]"
  by (simp add: genre_update_get_def genre_delete_get_def author_delete_get_def store_eval)

text \<open>
  The other half of the policy holds: the detail handlers and \<open>author_update_get\<close>
  pass an error with status 404 to \<^verbatim>\<open>next\<close>. The redirect followed by a render
  is what the other three handlers do on every store.
\<close>

lemma absent_entity_not_found:
  "Author_findById (aparams_id areq) st = None \<Longrightarrow>
     author_detail st areq = [Next (HttpError ''Author not found'' 404)] \<and>
     author_update_get st areq = [Next (HttpError ''Author not found'' 404)]"
  "Genre_findById (gparams_id greq) st = None \<Longrightarrow>
     genre_detail st greq = [Next (HttpError ''Genre not found'' 404)]"
  by (simp_all add: author_detail_def author_update_get_def genre_detail_def)

lemma absent_entity_redirect_and_render:
  "Genre_findById (gparams_id greq) st = None \<Longrightarrow>
     genre_update_get st greq =
       [Redirect ''/catalog/genres'',
        Render ''genre_form'' [(''title'', Str ''Update Genre''), (''genre'', Null)]] \<and>
     genre_delete_get st greq =
       [Redirect ''/catalog/genre'',
        Render ''genre_delete''
          [(''title'', Str ''Delete Genre''), (''genre'', Null),
           (''genre_books'',
            BooksV (Book_find (\<lambda>b. book_genre b = gparams_id greq) [''title'', ''sumarry''] st))]]"
  "Author_findById (aparams_id areq) st = None \<Longrightarrow>
     author_delete_get st areq =
       [Redirect ''/catalog/authors'',
        Render ''author_delete''
          [(''title'', Str ''Delete Author''), (''author'', Null),
           (''author_books'',
            BooksV (Book_find (\<lambda>b. book_author b = aparams_id areq) [''title'', ''summary''] st))]]"
  by (simp_all add: genre_update_get_def genre_delete_get_def author_delete_get_def
      genre_local_def author_local_def)

section \<open>List views\<close>

text \<open>
  Claim C10. \<open>author_list\<close> renders the view \<^verbatim>\<open>author_list\<close> with every Author
  of the store, each as often as the store holds it, in ascending order of
  \<open>family_name\<close>; \<open>genre_list\<close> renders the view \<^verbatim>\<open>genre_list\<close> with the
  Genres of the store in the store's own order. Neither takes a page or a filter from
  the request.
\<close>

theorem lists_render_all_documents:
  "(\<exists>allAuthors.
      author_list st =
        [Render ''author_list''
           [(''title'', Str ''Author List''), (''author_list'', AuthorsV allAuthors)]] \<and>
      sorted (map family_name allAuthors) \<and> mset allAuthors = mset (authors st)) \<and>
   genre_list st =
     [Render ''genre_list''
        [(''title'', Str ''Genre List''), (''genre_list'', GenresV (genres st))]]"
  by (simp add: author_list_def genre_list_def)

end
